theory Spec2Isabelle
  imports Complex_Main
begin

section \<open>Numbers and tables\<close>

text \<open>
  The module \<^verbatim>\<open>pycaret/regression.py\<close> computes with IEEE doubles. The embedding
  idealises them as real numbers: \<^verbatim>\<open>np.sqrt\<close> is \<open>sqrt\<close>, \<^verbatim>\<open>np.log\<close> is \<open>ln\<close>,
  \<^verbatim>\<open>np.nan_to_num\<close> is the identity, and a NaN (the mean of an empty selection)
  has no counterpart. Wall-clock measurements (the training-time column, run times) and
  everything that is only shown on screen or sent to the logger are left out.
\<close>

subsection \<open>Rounding to a number of decimals\<close>

text \<open>
  \<^verbatim>\<open>DataFrame.round(d)\<close> is \<^verbatim>\<open>np.round\<close>: scale by \<open>10 ^ d\<close>, round to the nearest
  integer with ties going to the even neighbour, scale back. For a negative \<open>d\<close> the
  scaling divides first.
\<close>

definition rint :: "real \<Rightarrow> int" where
  "rint x =
     (let f = \<lfloor>x\<rfloor>; r = x - of_int f
      in if r < 1 / 2 then f
         else if 1 / 2 < r then f + 1
         else if even f then f else f + 1)"

definition np_round :: "int \<Rightarrow> real \<Rightarrow> real" where
  "np_round d x =
     (if 0 \<le> d then of_int (rint (x * 10 ^ nat d)) / 10 ^ nat d
      else of_int (rint (x / 10 ^ nat (- d))) * 10 ^ nat (- d))"

text \<open>One unit in the last decimal place that \<open>np_round d\<close> keeps.\<close>

definition ulp :: "int \<Rightarrow> real" where
  "ulp d = (if 0 \<le> d then 1 / 10 ^ nat d else 10 ^ nat (- d))"

subsection \<open>Aggregates\<close>

text \<open>\<^verbatim>\<open>np.mean\<close> and \<^verbatim>\<open>np.std\<close> (the population standard deviation).\<close>

definition np_mean :: "real list \<Rightarrow> real" where
  "np_mean xs = sum_list xs / real (length xs)"

definition np_std :: "real list \<Rightarrow> real" where
  "np_std xs = sqrt (np_mean (map (\<lambda>x. (x - np_mean xs)\<^sup>2) xs))"

subsection \<open>Errors and outcomes\<close>

text \<open>
  \<^verbatim>\<open>sys.exit(msg)\<close> raises \<^verbatim>\<open>SystemExit\<close>; the other errors are the exceptions that
  the module's own indexing and the library calls it makes can raise. The experiment is
  held in module-level globals, so what was written before an exception stays written:
  a raised outcome carries the state at the moment of the raise, and \<open>state_of\<close>
  reads the state of either outcome.
\<close>

datatype error =
    SystemExit string
  | ValueError
  | NameError
  | KeyError
  | IndexError
  | AttributeError
  | FileNotFoundError

datatype ('a, 's) outcome = Raised error (state_of: 's) | Returned 'a (state_of: 's)

subsection \<open>The six metrics of one fold\<close>

record scores =
  MAE :: real
  MSE :: real
  RMSE :: real
  R2 :: real
  RMSLE :: real
  MAPE :: real

text \<open>
  \<^verbatim>\<open>sklearn.metrics\<close> first checks its two arguments: they must have the same,
  non-zero number of samples, or \<^verbatim>\<open>ValueError\<close> is raised.
\<close>

definition check_consistent_length :: "real list \<Rightarrow> real list \<Rightarrow> bool" where
  "check_consistent_length y_true y_pred = (length y_true = length y_pred \<and> y_true \<noteq> [])"

definition mean_absolute_error :: "real list \<Rightarrow> real list \<Rightarrow> real" where
  "mean_absolute_error y_true y_pred = np_mean (map (\<lambda>(t, p). \<bar>t - p\<bar>) (zip y_true y_pred))"

definition mean_squared_error :: "real list \<Rightarrow> real list \<Rightarrow> real" where
  "mean_squared_error y_true y_pred = np_mean (map (\<lambda>(t, p). (t - p)\<^sup>2) (zip y_true y_pred))"

text \<open>
  \<^verbatim>\<open>r2_score\<close>: one minus the ratio of the residual to the total sum of squares; a zero
  residual scores 1 and a constant \<open>y_true\<close> with a non-zero residual scores 0. (With fewer
  than two samples the library returns NaN, which the reals do not have.)
\<close>

definition r2_score :: "real list \<Rightarrow> real list \<Rightarrow> real" where
  "r2_score y_true y_pred =
     (let numerator = sum_list (map (\<lambda>(t, p). (t - p)\<^sup>2) (zip y_true y_pred));
          denominator = sum_list (map (\<lambda>t. (t - np_mean y_true)\<^sup>2) y_true)
      in if numerator = 0 then 1
         else if denominator = 0 then 0
         else 1 - numerator / denominator)"

text \<open>
  \<^verbatim>\<open>calculate_mape\<close>, defined inside every training function: rows whose actual value is
  exactly zero are masked out, and the division is by the actual value, not its magnitude.
\<close>

definition calculate_mape :: "real list \<Rightarrow> real list \<Rightarrow> real" where
  "calculate_mape actual prediction =
     np_mean (map (\<lambda>(a, p). \<bar>a - p\<bar> / a) (filter (\<lambda>(a, p). a \<noteq> 0) (zip actual prediction)))"

definition rmsle_score :: "real list \<Rightarrow> real list \<Rightarrow> real" where
  "rmsle_score ytest pred =
     sqrt (np_mean (map (\<lambda>(p, t). (ln (\<bar>p\<bar> + 1) - ln (\<bar>t\<bar> + 1))\<^sup>2) (zip pred ytest)))"

text \<open>The block \<^verbatim>\<open>mae = ...; mse = ...; rmse = np.sqrt(mse); ...\<close> of a fold.\<close>

definition compile_metrics :: "real list \<Rightarrow> real list \<Rightarrow> error + scores" where
  "compile_metrics ytest pred =
     (if check_consistent_length ytest pred then
        (let mae = mean_absolute_error ytest pred;
             mse = mean_squared_error ytest pred;
             rmse = sqrt mse;
             rmsle = rmsle_score ytest pred;
             r2 = r2_score ytest pred;
             mape = calculate_mape ytest pred
         in Inr \<lparr>MAE = mae, MSE = mse, RMSE = rmse, R2 = r2, RMSLE = rmsle, MAPE = mape\<rparr>)
      else Inl ValueError)"

subsection \<open>Score grids and the other tables\<close>

datatype row_label = Fold nat | Mean | SD

type_synonym score_grid = "(row_label \<times> scores) list"

definition round_scores :: "int \<Rightarrow> scores \<Rightarrow> scores" where
  "round_scores d r =
     \<lparr>MAE = np_round d (MAE r), MSE = np_round d (MSE r), RMSE = np_round d (RMSE r),
      R2 = np_round d (R2 r), RMSLE = np_round d (RMSLE r), MAPE = np_round d (MAPE r)\<rparr>"

definition aggregate :: "(real list \<Rightarrow> real) \<Rightarrow> scores list \<Rightarrow> scores" where
  "aggregate f rows =
     \<lparr>MAE = f (map MAE rows), MSE = f (map MSE rows), RMSE = f (map RMSE rows),
      R2 = f (map R2 rows), RMSLE = f (map RMSLE rows), MAPE = f (map MAPE rows)\<rparr>"

text \<open>
  \<^verbatim>\<open>model_results\<close>: one row per fold under the index \<open>0, 1, ...\<close>, then the rows
  \<^verbatim>\<open>'Mean'\<close> and \<^verbatim>\<open>'SD'\<close> of the column means and standard deviations, and the whole
  table rounded to \<open>rnd\<close> decimals (the parameter \<^verbatim>\<open>round\<close>).
\<close>

definition model_results :: "int \<Rightarrow> scores list \<Rightarrow> score_grid" where
  "model_results rnd rows =
     map (\<lambda>(l, r). (l, round_scores rnd r))
       (zip (map Fold [0..<length rows]) rows
        @ [(Mean, aggregate np_mean rows), (SD, aggregate np_std rows)])"

text \<open>
  The display container holds three kinds of table: score grids, the ranked table of
  \<^verbatim>\<open>compare_models\<close> (a model name and its mean scores per row), and the one-row
  hold-out score of \<^verbatim>\<open>predict_model\<close>, whose \<^verbatim>\<open>'Model'\<close> column, the estimator's display
  name, is left out.
\<close>

datatype table =
    ScoreGrid score_grid
  | CompareTable "(string \<times> scores) list"
  | HoldoutScore scores

definition column :: "string \<Rightarrow> (scores \<Rightarrow> real) option" where
  "column name =
     (if name = ''MAE'' then Some MAE
      else if name = ''MSE'' then Some MSE
      else if name = ''RMSE'' then Some RMSE
      else if name = ''R2'' then Some R2
      else if name = ''RMSLE'' then Some RMSLE
      else if name = ''MAPE'' then Some MAPE
      else None)"

text \<open>
  \<^verbatim>\<open>grid[compare_dimension][-2:][0]\<close>: the column, its last two entries, the first of
  them. On a score grid that is the entry of the \<^verbatim>\<open>'Mean'\<close> row.
\<close>

definition mean_entry :: "score_grid \<Rightarrow> string \<Rightarrow> error + real" where
  "mean_entry grid compare_dimension =
     (case column compare_dimension of
        None \<Rightarrow> Inl KeyError
      | Some c \<Rightarrow>
          (case drop (length grid - 2) grid of
             [] \<Rightarrow> Inl IndexError
           | r # _ \<Rightarrow> Inr (c (snd r))))"

section \<open>The experiment and the estimator library\<close>

subsection \<open>What the module takes from outside\<close>

text \<open>
  Every estimator, the fold generator's shuffle and the randomized search belong to
  scikit-learn and its companions. They are parameters of the embedding: \<open>'m\<close> is the
  type of estimator objects, \<open>'x\<close> of one row of features, \<open>'k\<close> of the values of
  keyword arguments and parameter grids. The experiment's \<^verbatim>\<open>seed\<close> and job count are
  fixed inside these functions. \<open>fit\<close> and \<open>predict\<close> are taken to return.

  An estimator object is modelled by its value: \<open>fit\<close> returns the fitted estimator,
  where the source's \<^verbatim>\<open>model.fit(...)\<close> updates the object in place. A container entry
  therefore keeps the value it had when it was appended, also where the source later
  refits the very same object.
\<close>

record ('x, 'm, 'k) library =
  construct :: "string \<Rightarrow> (string \<times> 'k) list \<Rightarrow> 'm"
  fit :: "'m \<Rightarrow> 'x list \<Rightarrow> real list \<Rightarrow> 'm"
  predict :: "'m \<Rightarrow> 'x list \<Rightarrow> real list"
  clone :: "'m \<Rightarrow> 'm"
  get_model_name :: "'m \<Rightarrow> string"
  BaggingRegressor :: "'m \<Rightarrow> int \<Rightarrow> 'm"
  AdaBoostRegressor :: "'m \<Rightarrow> int \<Rightarrow> 'm"
  RandomizedSearchCV ::
    "string \<Rightarrow> 'm \<Rightarrow> (string \<times> 'k) list option \<Rightarrow> string \<Rightarrow> int \<Rightarrow> 'x list \<Rightarrow> real list \<Rightarrow> 'm"
  shuffle :: "nat list \<Rightarrow> nat list"

text \<open>
  \<open>construct L tag kwargs\<close> is the constructor call of the branch \<^verbatim>\<open>estimator == tag\<close>;
  \<open>get_model_name L e\<close> is \<^verbatim>\<open>str(e).split("(")[0]\<close>;
  \<open>RandomizedSearchCV L tag e custom_grid scoring n_iter X y\<close> is the
  \<^verbatim>\<open>best_estimator_\<close> of the search that \<^verbatim>\<open>tune_model\<close> runs in the branch of \<open>tag\<close>.
\<close>

text \<open>What \<^verbatim>\<open>predict_model\<close> accepts: a bare estimator, or a pipeline of preprocessing
  steps that ends in one.\<close>

datatype ('x, 'm) predictor = Model 'm | Pipeline "'x list \<Rightarrow> 'x list" 'm

text \<open>What \<^verbatim>\<open>create_model\<close> accepts: the ID of an estimator, or an estimator object.\<close>

datatype 'm estimator = Tag string | Obj 'm

subsection \<open>The globals that \<^verbatim>\<open>setup\<close> publishes\<close>

text \<open>
  \<open>X_full\<close> and \<open>y_full\<close> are the globals \<^verbatim>\<open>X\<close> and \<^verbatim>\<open>y\<close>. \<open>prep_pipe\<close> is the fitted
  preprocessing pipeline, as the transformation it applies. \<open>files\<close> is the current
  directory as far as \<^verbatim>\<open>joblib.dump\<close> and \<^verbatim>\<open>joblib.load\<close> see it: reading a name
  gives back a copy of what was last written under it.
\<close>

record ('x, 'm) globals =
  X_full :: "'x list"
  y_full :: "real list"
  X_train :: "'x list"
  y_train :: "real list"
  X_test :: "'x list"
  y_test :: "real list"
  folds_shuffle_param :: bool
  logging_param :: bool
  prep_pipe :: "'x list \<Rightarrow> 'x list"
  target_inverse_transformer :: "(real list \<Rightarrow> real list) option"
  create_model_container :: "score_grid list"
  master_model_container :: "'m list"
  display_container :: "table list"
  files :: "string \<Rightarrow> ('x, 'm) predictor option"

subsection \<open>K-fold splitting\<close>

text \<open>
  \<^verbatim>\<open>KFold(fold, random_state=seed, shuffle=folds_shuffle_param)\<close> refuses fewer than two
  splits when it is constructed. \<^verbatim>\<open>kf.split(data_X, data_y)\<close> refuses inputs of
  different lengths and more splits than samples; otherwise it cuts the (shuffled)
  indices into \<open>k\<close> consecutive chunks, the first \<open>n mod k\<close> of them one longer, and
  yields for each chunk the indices outside it and the indices inside it, both ascending.
\<close>

definition KFold :: "int \<Rightarrow> error + nat" where
  "KFold n_splits = (if n_splits \<le> 1 then Inl ValueError else Inr (nat n_splits))"

definition fold_sizes :: "nat \<Rightarrow> nat \<Rightarrow> nat list" where
  "fold_sizes n k = map (\<lambda>j. n div k + (if j < n mod k then 1 else 0)) [0..<k]"

fun chunks :: "nat list \<Rightarrow> 'a list \<Rightarrow> 'a list list" where
  "chunks [] xs = []"
| "chunks (s # ss) xs = take s xs # chunks ss (drop s xs)"

definition kf_split :: "('x, 'm, 'k) library \<Rightarrow> bool \<Rightarrow> nat \<Rightarrow> 'x list \<Rightarrow> real list \<Rightarrow>
    error + (nat list \<times> nat list) list" where
  "kf_split L shuffled k data_X data_y =
     (let n = length data_X
      in if length data_y \<noteq> n then Inl ValueError
         else if n < k then Inl ValueError
         else Inr (map (\<lambda>c. (filter (\<lambda>i. i \<notin> set c) [0..<n], filter (\<lambda>i. i \<in> set c) [0..<n]))
                    (chunks (fold_sizes n k) (if shuffled then shuffle L [0..<n] else [0..<n]))))"

definition iloc :: "'a list \<Rightarrow> nat list \<Rightarrow> 'a list" where
  "iloc xs idx = map (\<lambda>i. xs ! i) idx"

subsection \<open>The fold loop\<close>

text \<open>
  The loop \<^verbatim>\<open>for train_i, test_i in kf.split(data_X, data_y)\<close> is written out four times
  in the source (in \<^verbatim>\<open>create_model\<close>, \<^verbatim>\<open>tune_model\<close>, \<^verbatim>\<open>ensemble_model\<close> and, per model,
  in \<^verbatim>\<open>compare_models\<close>) with the same body: fit on the training rows, predict the
  held-out rows, undo the target transformation when there is a transformer (the
  \<^verbatim>\<open>try\<close> block fails as a whole when there is none), compute the metrics. The estimator
  is one object, refitted fold after fold.
\<close>

definition inverse_target :: "(real list \<Rightarrow> real list) option \<Rightarrow> real list \<Rightarrow> real list" where
  "inverse_target t v = (case t of None \<Rightarrow> v | Some f \<Rightarrow> f v)"

fun cv_loop :: "('x, 'm, 'k) library \<Rightarrow> (real list \<Rightarrow> real list) option \<Rightarrow> 'x list \<Rightarrow> real list \<Rightarrow>
    'm \<Rightarrow> (nat list \<times> nat list) list \<Rightarrow> error + ('m \<times> scores list)" where
  "cv_loop L t data_X data_y model [] = Inr (model, [])"
| "cv_loop L t data_X data_y model ((train_i, test_i) # rest) =
     (let model1 = fit L model (iloc data_X train_i) (iloc data_y train_i);
          pred = inverse_target t (predict L model1 (iloc data_X test_i));
          ytest = inverse_target t (iloc data_y test_i)
      in case compile_metrics ytest pred of
           Inl e \<Rightarrow> Inl e
         | Inr row \<Rightarrow>
             (case cv_loop L t data_X data_y model1 rest of
                Inl e \<Rightarrow> Inl e
              | Inr (model2, rows) \<Rightarrow> Inr (model2, row # rows)))"

text \<open>Splitting and looping together: the estimator after the last fold and the fold scores.\<close>

definition cross_validate :: "('x, 'm, 'k) library \<Rightarrow> ('x, 'm) globals \<Rightarrow> nat \<Rightarrow> 'm \<Rightarrow>
    error + ('m \<times> scores list)" where
  "cross_validate L st k model =
     (case kf_split L (folds_shuffle_param st) k (X_train st) (y_train st) of
        Inl e \<Rightarrow> Inl e
      | Inr splits \<Rightarrow> cv_loop L (target_inverse_transformer st) (X_train st) (y_train st) model splits)"

section \<open>The operations\<close>

text \<open>
  Parameters keep the source's names, except \<open>fold_n\<close> and \<open>rnd\<close> for \<^verbatim>\<open>fold\<close> and
  \<^verbatim>\<open>round\<close>. The parameter \<^verbatim>\<open>verbose\<close> only steers the display and is dropped, and the
  checks \<^verbatim>\<open>type(p) is not int\<close> and \<^verbatim>\<open>type(p) is not bool\<close> are decided by the types.
  Calls to the experiment tracker do not touch the experiment and are left out, except
  for the hold-out prediction they trigger.
\<close>

subsection \<open>\<^verbatim>\<open>predict_model\<close> and \<^verbatim>\<open>pull\<close>\<close>

record 'x predictions =
  features :: "'x list"
  target :: "real list option"
  Label :: "real list"

definition run_predict :: "('x, 'm, 'k) library \<Rightarrow> ('x, 'm) predictor \<Rightarrow> 'x list \<Rightarrow> real list" where
  "run_predict L estimator Xtest =
     (case estimator of
        Model m \<Rightarrow> predict L m Xtest
      | Pipeline steps m \<Rightarrow> predict L m (steps Xtest))"

text \<open>
  Without \<^verbatim>\<open>data\<close> the final estimator predicts the stored test partition and the six
  metrics are computed and rounded to 4 decimals; \<^verbatim>\<open>df_score\<close> is appended to the
  display container. With \<^verbatim>\<open>data\<close> a bare estimator is first put behind a copy of
  \<^verbatim>\<open>prep_pipe\<close>; \<^verbatim>\<open>df_score\<close> is never assigned, so the append raises \<^verbatim>\<open>NameError\<close>
  inside its \<^verbatim>\<open>try\<close> and nothing is stored.
\<close>

definition predict_model :: "('x, 'm, 'k) library \<Rightarrow> ('x, 'm) predictor \<Rightarrow> 'x list option \<Rightarrow> int \<Rightarrow>
    ('x, 'm) globals \<Rightarrow> ('x predictions, ('x, 'm) globals) outcome" where
  "predict_model L estimator data rnd st =
     (let target_transformer = target_inverse_transformer st
      in case data of
           None \<Rightarrow>
             (let estimator1 = (case estimator of Model m \<Rightarrow> Model m | Pipeline steps m \<Rightarrow> Model m);
                  Xtest = X_test st;
                  pred = inverse_target target_transformer (run_predict L estimator1 Xtest);
                  ytest = inverse_target target_transformer (y_test st)
              in case compile_metrics ytest pred of
                   Inl e \<Rightarrow> Raised e st
                 | Inr row \<Rightarrow>
                     Returned \<lparr>features = Xtest, target = Some ytest, Label = map (np_round rnd) pred\<rparr>
                       (st\<lparr>display_container := display_container st @ [HoldoutScore (round_scores 4 row)]\<rparr>))
         | Some d \<Rightarrow>
             (let estimator1 =
                    (case estimator of Model m \<Rightarrow> Pipeline (prep_pipe st) m | Pipeline steps m \<Rightarrow> Pipeline steps m);
                  pred = inverse_target target_transformer (run_predict L estimator1 d)
              in Returned \<lparr>features = d, target = None, Label = map (np_round rnd) pred\<rparr> st))"

definition pull :: "('x, 'm) globals \<Rightarrow> (table, ('x, 'm) globals) outcome" where
  "pull st = (if display_container st = [] then Raised IndexError st
              else Returned (last (display_container st)) st)"

text \<open>\<^verbatim>\<open>display_container.pop(-1)\<close>.\<close>

definition display_pop :: "('x, 'm) globals \<Rightarrow> (unit, ('x, 'm) globals) outcome" where
  "display_pop st = (if display_container st = [] then Raised IndexError st
                     else Returned () (st\<lparr>display_container := butlast (display_container st)\<rparr>))"

text \<open>
  Inside a tracking run: \<^verbatim>\<open>predict_model(model, verbose=False)\<close>, \<^verbatim>\<open>pull()\<close>,
  \<^verbatim>\<open>display_container.pop(-1)\<close>.
\<close>

definition log_holdout :: "('x, 'm, 'k) library \<Rightarrow> 'm \<Rightarrow> ('x, 'm) globals \<Rightarrow> (unit, ('x, 'm) globals) outcome" where
  "log_holdout L model st =
     (case predict_model L (Model model) None 4 st of
        Raised e s \<Rightarrow> Raised e s
      | Returned holdout s1 \<Rightarrow>
          (case pull s1 of
             Raised e s \<Rightarrow> Raised e s
           | Returned holdout_score s2 \<Rightarrow> display_pop s2))"

text \<open>The three appends that end a training function.\<close>

definition store_results :: "score_grid \<Rightarrow> 'm \<Rightarrow> ('x, 'm) globals \<Rightarrow> ('x, 'm) globals" where
  "store_results grid model st =
     st\<lparr>create_model_container := create_model_container st @ [grid],
        display_container := display_container st @ [ScoreGrid grid],
        master_model_container := master_model_container st @ [model]\<rparr>"

subsection \<open>\<^verbatim>\<open>create_model\<close>\<close>

definition available_estimators :: "string list" where
  "available_estimators =
     [''lr'', ''lasso'', ''ridge'', ''en'', ''lar'', ''llar'', ''omp'', ''br'', ''ard'', ''par'',
      ''ransac'', ''tr'', ''huber'', ''kr'', ''svm'', ''knn'', ''dt'', ''rf'', ''et'', ''ada'', ''gbr'',
      ''mlp'', ''xgboost'', ''lightgbm'', ''catboost'']"

definition available_method :: "string list" where
  "available_method = [''Bagging'', ''Boosting'']"

definition estimator_not_available :: error where
  "estimator_not_available =
     SystemExit ''(Value Error): Estimator Not Available. Please see docstring for list of available estimators.''"

text \<open>
  The chain \<^verbatim>\<open>if estimator == 'lr': ... else: model = estimator\<close>, then the wrapping
  when \<^verbatim>\<open>method\<close> is given (ten members).
\<close>

definition select_estimator :: "('x, 'm, 'k) library \<Rightarrow> 'm estimator \<Rightarrow> (string \<times> 'k) list \<Rightarrow> 'm" where
  "select_estimator L estimator kwargs =
     (case estimator of Tag t \<Rightarrow> construct L t kwargs | Obj e \<Rightarrow> e)"

definition wrap_method :: "('x, 'm, 'k) library \<Rightarrow> string option \<Rightarrow> 'm \<Rightarrow> 'm" where
  "wrap_method L method model =
     (if method = Some ''Bagging'' then BaggingRegressor L model 10
      else if method = Some ''Boosting'' then AdaBoostRegressor L model 10
      else model)"

definition create_model :: "('x, 'm, 'k) library \<Rightarrow> 'm estimator \<Rightarrow> bool \<Rightarrow> string option \<Rightarrow> int \<Rightarrow> int \<Rightarrow>
    bool \<Rightarrow> bool \<Rightarrow> (string \<times> 'k) list \<Rightarrow> ('x, 'm) globals \<Rightarrow> ('m, ('x, 'm) globals) outcome" where
  "create_model L estimator ensemble method fold_n rnd cross_validation system kwargs st =
     (if (case estimator of Tag t \<Rightarrow> t \<notin> set available_estimators | Obj e \<Rightarrow> False)
      then Raised estimator_not_available st
      else if \<not> ensemble \<and> method \<noteq> None
      then Raised (SystemExit ''(Type Error): Method parameter only accepts value when ensemble is set to True.'') st
      else if ensemble \<and> method = None
      then Raised (SystemExit ''(Type Error): Method parameter missing. Pass method = 'Bagging' or 'Boosting'.'') st
      else if ensemble \<and> method \<notin> set (map Some available_method)
      then Raised (SystemExit ''(Value Error): Method parameter only accepts two values 'Bagging' or 'Boosting'.'') st
      else
        (case KFold fold_n of
           Inl e \<Rightarrow> Raised e st
         | Inr kf \<Rightarrow>
             (let model = wrap_method L method (select_estimator L estimator kwargs)
              in if \<not> cross_validation
                 then Returned (fit L model (X_train st) (y_train st)) st
                 else
                   (case cross_validate L st kf model of
                      Inl e \<Rightarrow> Raised e st
                    | Inr (model1, rows) \<Rightarrow>
                        (let model_results = model_results rnd rows;
                             model2 = fit L model1 (X_train st) (y_train st)
                         in case (if logging_param st \<and> system then log_holdout L model2 st
                                  else Returned () st) of
                              Raised e s \<Rightarrow> Raised e s
                            | Returned u st1 \<Rightarrow> Returned model2 (store_results model_results model2 st1))))))"

subsection \<open>Choosing between a candidate and its base model\<close>

text \<open>\<^verbatim>\<open>xs[-1]\<close> is \<open>from_end xs 0\<close>, \<^verbatim>\<open>xs[-2]\<close> is \<open>from_end xs 1\<close>.\<close>

definition from_end :: "'a list \<Rightarrow> nat \<Rightarrow> error + 'a" where
  "from_end xs i = (if i < length xs then Inr (xs ! (length xs - 1 - i)) else Inl IndexError)"

text \<open>
  The block under \<^verbatim>\<open>if choose_better:\<close> after the base model has been created, the
  same in \<^verbatim>\<open>tune_model\<close> and \<^verbatim>\<open>ensemble_model\<close>: read the two most recent score grids,
  compare their \<^verbatim>\<open>'Mean'\<close> entries of the chosen column, keep the candidate only if it is
  strictly better, and pop the base model's grid from the display container.
  \<open>compare_dimension\<close> is \<open>None\<close> where the source never assigned the variable.
\<close>

definition keep_better :: "string option \<Rightarrow> 'm \<Rightarrow> 'm \<Rightarrow> ('x, 'm) globals \<Rightarrow> ('m, ('x, 'm) globals) outcome" where
  "keep_better compare_dimension candidate base_model st =
     (case from_end (create_model_container st) 0 of
        Inl e \<Rightarrow> Raised e st
      | Inr base_grid \<Rightarrow>
          (case compare_dimension of
             None \<Rightarrow> Raised NameError st
           | Some cd \<Rightarrow>
               (case mean_entry base_grid cd of
                  Inl e \<Rightarrow> Raised e st
                | Inr base_model_results \<Rightarrow>
                    (case from_end (create_model_container st) 1 of
                       Inl e \<Rightarrow> Raised e st
                     | Inr candidate_grid \<Rightarrow>
                         (case mean_entry candidate_grid cd of
                            Inl e \<Rightarrow> Raised e st
                          | Inr candidate_results \<Rightarrow>
                              (let best =
                                     (if cd = ''R2''
                                      then (if candidate_results > base_model_results then candidate else base_model)
                                      else (if candidate_results < base_model_results then candidate else base_model))
                               in case display_pop st of
                                    Raised e s \<Rightarrow> Raised e s
                                  | Returned u s \<Rightarrow> Returned best s))))))"

subsection \<open>\<^verbatim>\<open>tune_model\<close>\<close>

definition allowed_optimize :: "string list" where
  "allowed_optimize = [''MAE'', ''MSE'', ''R2'', ''RMSE'', ''RMSLE'', ''MAPE'']"

text \<open>The scorer handed to the search; \<^verbatim>\<open>compare_dimension\<close> is the metric's own name.\<close>

definition scoring_of :: "string \<Rightarrow> string" where
  "scoring_of optimize =
     (if optimize = ''MAE'' then ''neg_mean_absolute_error''
      else if optimize = ''MSE'' then ''neg_mean_squared_error''
      else if optimize = ''R2'' then ''r2''
      else if optimize = ''MAPE'' then ''neg_mean_absolute_error''
      else if optimize = ''RMSE'' then ''neg_mean_squared_error''
      else if optimize = ''RMSLE'' then ''neg_mean_squared_error''
      else optimize)"

fun contains :: "string \<Rightarrow> string \<Rightarrow> bool" where
  "contains sub [] = (sub = [])"
| "contains sub (c # cs) = (if take (length sub) (c # cs) = sub then True else contains sub cs)"

definition model_dict :: "(string \<times> string) list" where
  "model_dict =
     [(''ExtraTreesRegressor'', ''et''), (''GradientBoostingRegressor'', ''gbr''),
      (''RandomForestRegressor'', ''rf''), (''LGBMRegressor'', ''lightgbm''),
      (''XGBRegressor'', ''xgboost''), (''AdaBoostRegressor'', ''ada''),
      (''DecisionTreeRegressor'', ''dt''), (''Ridge'', ''ridge''),
      (''TheilSenRegressor'', ''tr''), (''BayesianRidge'', ''br''),
      (''LinearRegression'', ''lr''), (''ARDRegression'', ''ard''),
      (''KernelRidge'', ''kr''), (''RANSACRegressor'', ''ransac''),
      (''HuberRegressor'', ''huber''), (''Lasso'', ''lasso''),
      (''ElasticNet'', ''en''), (''Lars'', ''lar''),
      (''OrthogonalMatchingPursuit'', ''omp''), (''MLPRegressor'', ''mlp''),
      (''KNeighborsRegressor'', ''knn''), (''SVR'', ''svm''),
      (''LassoLars'', ''llar''), (''PassiveAggressiveRegressor'', ''par''),
      (''CatBoostRegressor'', ''catboost''), (''BaggingRegressor'', ''Bagging'')]"

text \<open>
  \<^verbatim>\<open>tune_model\<close> takes an estimator object, finds the ID of its class, lets the randomized
  search of that ID's branch produce \<^verbatim>\<open>model\<close> (the same object as \<^verbatim>\<open>best_model\<close>), scores
  it over the folds, refits it on the training partition and stores the results. A class
  outside \<open>model_dict\<close> matches no branch, \<^verbatim>\<open>model\<close> stays unassigned and its first use
  in the fold loop raises. With \<^verbatim>\<open>choose_better\<close> the base model is created anew, from
  the ID, or from the given object for \<^verbatim>\<open>'Bagging'\<close> and \<^verbatim>\<open>'ada'\<close>.
\<close>

definition tune_model :: "('x, 'm, 'k) library \<Rightarrow> 'm estimator \<Rightarrow> int \<Rightarrow> int \<Rightarrow> int \<Rightarrow>
    (string \<times> 'k) list option \<Rightarrow> string \<Rightarrow> bool \<Rightarrow> ('x, 'm) globals \<Rightarrow> ('m, ('x, 'm) globals) outcome" where
  "tune_model L estimator fold_n rnd n_iter custom_grid optimize choose_better st =
     (case estimator of
        Tag t \<Rightarrow>
          Raised (SystemExit ''(Type Error): The behavior of tune_model in version 1.0.1 is changed. Please pass trained model object.'') st
      | Obj estimator1 \<Rightarrow>
          if optimize \<notin> set allowed_optimize
          then Raised (SystemExit ''(Value Error): Optimization method not supported. See docstring for list of available parameters.'') st
          else
            (let compare_dimension = optimize;
                 mn = (let n = get_model_name L estimator1
                       in if contains ''catboost'' n then ''CatBoostRegressor'' else n)
             in case KFold fold_n of
                  Inl e \<Rightarrow> Raised e st
                | Inr kf \<Rightarrow>
                    (case kf_split L (folds_shuffle_param st) kf (X_train st) (y_train st) of
                       Inl e \<Rightarrow> Raised e st
                     | Inr splits \<Rightarrow>
                         (case map_of model_dict mn of
                            None \<Rightarrow> Raised NameError st
                          | Some tag \<Rightarrow>
                              (let model = RandomizedSearchCV L tag estimator1 custom_grid (scoring_of optimize)
                                             n_iter (X_train st) (y_train st)
                               in case cv_loop L (target_inverse_transformer st) (X_train st) (y_train st) model splits of
                                    Inl e \<Rightarrow> Raised e st
                                  | Inr (model1, rows) \<Rightarrow>
                                      (let model_results = model_results rnd rows;
                                           best_model = fit L model1 (X_train st) (y_train st);
                                           st1 = store_results model_results best_model st
                                       in case (if choose_better
                                                then (case (if tag \<in> set [''Bagging'', ''ada'']
                                                            then create_model L (Obj estimator1) False None 10 4 True False [] st1
                                                            else create_model L (Tag tag) False None 10 4 True True [] st1) of
                                                        Raised e s \<Rightarrow> Raised e s
                                                      | Returned base_model st2 \<Rightarrow>
                                                          keep_better (Some compare_dimension) best_model base_model st2)
                                                else Returned best_model st1) of
                                            Raised e s \<Rightarrow> Raised e s
                                          | Returned best_model1 st3 \<Rightarrow>
                                              (case (if logging_param st3 then log_holdout L best_model1 st3
                                                     else Returned () st3) of
                                                 Raised e s \<Rightarrow> Raised e s
                                               | Returned u st4 \<Rightarrow> Returned best_model1 st4)))))))"

subsection \<open>\<^verbatim>\<open>ensemble_model\<close>\<close>

definition compare_dimension_of :: "string \<Rightarrow> string option" where
  "compare_dimension_of optimize =
     (if optimize = ''MAE'' then Some ''MAE''
      else if optimize = ''MSE'' then Some ''MSE''
      else if optimize = ''RMSE'' then Some ''RMSE''
      else if optimize = ''R2'' then Some ''R2''
      else if optimize = ''RMSLE'' then Some ''RMSLE''
      else if optimize = ''MAPE'' then Some ''MAPE''
      else None)"

definition ensemble_model :: "('x, 'm, 'k) library \<Rightarrow> 'm \<Rightarrow> string \<Rightarrow> int \<Rightarrow> int \<Rightarrow> int \<Rightarrow> bool \<Rightarrow> string \<Rightarrow>
    ('x, 'm) globals \<Rightarrow> ('m, ('x, 'm) globals) outcome" where
  "ensemble_model L estimator method fold_n n_estimators rnd choose_better optimize st =
     (if method \<notin> set available_method
      then Raised (SystemExit ''(Value Error): Method parameter only accepts two values 'Bagging' or 'Boosting'.'') st
      else
        (let compare_dimension = compare_dimension_of optimize;
             model = (if method = ''Bagging'' then BaggingRegressor L estimator n_estimators
                      else AdaBoostRegressor L estimator n_estimators)
         in case KFold fold_n of
              Inl e \<Rightarrow> Raised e st
            | Inr kf \<Rightarrow>
                (case cross_validate L st kf model of
                   Inl e \<Rightarrow> Raised e st
                 | Inr (model1, rows) \<Rightarrow>
                     (let model_results = model_results rnd rows;
                          model2 = fit L model1 (X_train st) (y_train st);
                          st1 = store_results model_results model2 st
                      in case (if choose_better
                               then (case create_model L (Obj estimator) False None 10 4 True True [] st1 of
                                       Raised e s \<Rightarrow> Raised e s
                                     | Returned base_model st2 \<Rightarrow>
                                         keep_better compare_dimension model2 base_model st2)
                               else Returned model2 st1) of
                           Raised e s \<Rightarrow> Raised e s
                         | Returned model3 st3 \<Rightarrow>
                             (case (if logging_param st3 then log_holdout L model3 st3
                                    else Returned () st3) of
                                Raised e s \<Rightarrow> Raised e s
                              | Returned u st4 \<Rightarrow> Returned model3 st4)))))"

subsection \<open>\<^verbatim>\<open>finalize_model\<close> and \<^verbatim>\<open>automl\<close>\<close>












subsection \<open>\<^verbatim>\<open>save_model\<close> and \<^verbatim>\<open>load_model\<close>\<close>

text \<open>
  \<^verbatim>\<open>save_model\<close> dumps either a copy of the estimator alone, or a copy of \<^verbatim>\<open>prep_pipe\<close>
  with the estimator appended as its last step, under \<^verbatim>\<open>model_name + '.pkl'\<close>.
  \<^verbatim>\<open>load_model\<close> is modelled for \<^verbatim>\<open>platform=None\<close>, where it loads that file; the cloud
  branches download the file first.
\<close>

definition save_model :: "'m \<Rightarrow> string \<Rightarrow> bool \<Rightarrow> ('x, 'm) globals \<Rightarrow> (unit, ('x, 'm) globals) outcome" where
  "save_model model model_name model_only st =
     (let model1 = (if model_only then Model model else Pipeline (prep_pipe st) model)
      in Returned () (st\<lparr>files := (files st)(model_name @ ''.pkl'' := Some model1)\<rparr>))"

definition load_model :: "string \<Rightarrow> ('x, 'm) globals \<Rightarrow> (('x, 'm) predictor, ('x, 'm) globals) outcome" where
  "load_model model_name st =
     (case files st (model_name @ ''.pkl'') of
        None \<Rightarrow> Raised FileNotFoundError st
      | Some obj \<Rightarrow> Returned obj st)"

subsection \<open>\<^verbatim>\<open>compare_models\<close>\<close>

text \<open>The model library in its order: the ID of each model and the name shown for it.\<close>

definition model_names :: "(string \<times> string) list" where
  "model_names =
     [(''lr'', ''Linear Regression''), (''lasso'', ''Lasso Regression''),
      (''ridge'', ''Ridge Regression''), (''en'', ''Elastic Net''),
      (''lar'', ''Least Angle Regression''), (''llar'', ''Lasso Least Angle Regression''),
      (''omp'', ''Orthogonal Matching Pursuit''), (''br'', ''Bayesian Ridge''),
      (''ard'', ''Automatic Relevance Determination''), (''par'', ''Passive Aggressive Regressor''),
      (''ransac'', ''Random Sample Consensus''), (''tr'', ''TheilSen Regressor''),
      (''huber'', ''Huber Regressor''), (''kr'', ''Kernel Ridge''),
      (''svm'', ''Support Vector Machine''), (''knn'', ''K Neighbors Regressor''),
      (''dt'', ''Decision Tree''), (''rf'', ''Random Forest''),
      (''et'', ''Extra Trees Regressor''), (''ada'', ''AdaBoost Regressor''),
      (''gbr'', ''Gradient Boosting Regressor''), (''mlp'', ''Multi Level Perceptron''),
      (''xgboost'', ''Extreme Gradient Boosting''), (''lightgbm'', ''Light Gradient Boosting Machine''),
      (''catboost'', ''CatBoost Regressor'')]"

text \<open>The dictionary \<^verbatim>\<open>model_dict\<close> of \<^verbatim>\<open>compare_models\<close>, from the shown name back to the ID.\<close>

definition model_dict_compare :: "(string \<times> string) list" where
  "model_dict_compare = map (\<lambda>(tag, name). (name, tag)) model_names"







text \<open>
  The loop \<^verbatim>\<open>for i in sorted_model_names\<close>: every selected model is created again by
  \<^verbatim>\<open>create_model(estimator=k, verbose=False, system=False, cross_validation=True)\<close>.
\<close>

fun create_selected :: "('x, 'm, 'k) library \<Rightarrow> string list \<Rightarrow> ('x, 'm) globals \<Rightarrow>
    ('m list, ('x, 'm) globals) outcome" where
  "create_selected L [] st = Returned [] st"
| "create_selected L (i # rest) st =
     (case map_of model_dict_compare i of
        None \<Rightarrow> Raised AttributeError st
      | Some k \<Rightarrow>
          (case create_model L (Tag k) False None 10 4 True False [] st of
             Raised e s \<Rightarrow> Raised e s
           | Returned m st1 \<Rightarrow>
               (case create_selected L rest st1 of
                  Raised e s \<Rightarrow> Raised e s
                | Returned ms st2 \<Rightarrow> Returned (m # ms) st2)))"



section \<open>A library and experiments to run the operations on\<close>

text \<open>
  A stand-in for the estimator library: an estimator is a class name and a coefficient
  \<open>a\<close>, it predicts \<open>a * x\<close> for a row with the single feature \<open>x\<close>, and fitting
  does not change it. The constructor of every ID yields the coefficient \<open>1\<close>, the
  randomized search finds the coefficient \<open>-1\<close>, and the two wrappers keep the
  coefficient of what they wrap.
\<close>

definition toy_library :: "(real, string \<times> real, real) library" where
  "toy_library =
     \<lparr>construct = (\<lambda>tag kwargs. (tag, 1)),
      fit = (\<lambda>m data_X data_y. m),
      predict = (\<lambda>m data_X. map (\<lambda>x. snd m * x) data_X),
      clone = (\<lambda>m. m),
      get_model_name = fst,
      BaggingRegressor = (\<lambda>m n. (''BaggingRegressor'', snd m)),
      AdaBoostRegressor = (\<lambda>m n. (''AdaBoostRegressor'', snd m)),
      RandomizedSearchCV = (\<lambda>tag e custom_grid scoring n_iter data_X data_y. (fst e, - 1)),
      shuffle = rev\<rparr>"

text \<open>
  An experiment over given training and test targets, every row with the feature \<open>1\<close>.
  Its preprocessing adds one to the feature.
\<close>

definition experiment_on :: "real list \<Rightarrow> real list \<Rightarrow> bool \<Rightarrow> (real, string \<times> real) globals" where
  "experiment_on train test logging =
     \<lparr>X_full = replicate (length train + length test) 1,
      y_full = train @ test,
      X_train = replicate (length train) 1,
      y_train = train,
      X_test = replicate (length test) 1,
      y_test = test,
      folds_shuffle_param = False,
      logging_param = logging,
      prep_pipe = map (\<lambda>x. x + 1),
      target_inverse_transformer = None,
      create_model_container = [],
      master_model_container = [],
      display_container = [],
      files = (\<lambda>name. None)\<rparr>"

text \<open>Four training rows for two folds, and twenty for the ten folds of the defaults.\<close>

definition small_experiment :: "(real, string \<times> real) globals" where
  "small_experiment = experiment_on [1 / 6, 1 / 6, - (1 / 6), - (1 / 6)] [1 / 6, - (1 / 6)] False"

text \<open>The score grid that the first experiment gets for an estimator with the coefficient
  \<open>- 1 / 6\<close>: it misses the first two targets by a third and meets the other two.\<close>

definition small_score_grid :: score_grid where
  "small_score_grid =
     [(Fold 0, \<lparr>MAE = 3333 / 10000, MSE = 1111 / 10000, RMSE = 3333 / 10000, R2 = 0, RMSLE = 0, MAPE = 2\<rparr>),
      (Fold 1, \<lparr>MAE = 0, MSE = 0, RMSE = 0, R2 = 1, RMSLE = 0, MAPE = 0\<rparr>),
      (Mean, \<lparr>MAE = 1667 / 10000, MSE = 556 / 10000, RMSE = 1667 / 10000, R2 = 1 / 2, RMSLE = 0, MAPE = 1\<rparr>),
      (SD, \<lparr>MAE = 1667 / 10000, MSE = 556 / 10000, RMSE = 1667 / 10000, R2 = 1 / 2, RMSLE = 0, MAPE = 1\<rparr>)]"

definition demo_experiment :: "(real, string \<times> real) globals" where
  "demo_experiment = experiment_on (replicate 20 (- 1)) [- 1, - 1] True"

text \<open>
  The fold scores on the second experiment: of an estimator with the coefficient \<open>1\<close>,
  which is off by 2 on every row, and of one with the coefficient \<open>-1\<close>, which is exact.
\<close>

definition off_scores :: scores where
  "off_scores = \<lparr>MAE = 2, MSE = 4, RMSE = 2, R2 = 0, RMSLE = 0, MAPE = - 2\<rparr>"

definition exact_scores :: scores where
  "exact_scores = \<lparr>MAE = 0, MSE = 0, RMSE = 0, R2 = 1, RMSLE = 0, MAPE = 0\<rparr>"

text \<open>The ten splits of twenty rows, unshuffled: training indices and test indices.\<close>

definition demo_splits :: "(nat list \<times> nat list) list" where
  "demo_splits =
     [([2, 3, 4, 5, 6, 7, 8, 9, 10, 11, 12, 13, 14, 15, 16, 17, 18, 19], [0, 1]),
      ([0, 1, 4, 5, 6, 7, 8, 9, 10, 11, 12, 13, 14, 15, 16, 17, 18, 19], [2, 3]),
      ([0, 1, 2, 3, 6, 7, 8, 9, 10, 11, 12, 13, 14, 15, 16, 17, 18, 19], [4, 5]),
      ([0, 1, 2, 3, 4, 5, 8, 9, 10, 11, 12, 13, 14, 15, 16, 17, 18, 19], [6, 7]),
      ([0, 1, 2, 3, 4, 5, 6, 7, 10, 11, 12, 13, 14, 15, 16, 17, 18, 19], [8, 9]),
      ([0, 1, 2, 3, 4, 5, 6, 7, 8, 9, 12, 13, 14, 15, 16, 17, 18, 19], [10, 11]),
      ([0, 1, 2, 3, 4, 5, 6, 7, 8, 9, 10, 11, 14, 15, 16, 17, 18, 19], [12, 13]),
      ([0, 1, 2, 3, 4, 5, 6, 7, 8, 9, 10, 11, 12, 13, 16, 17, 18, 19], [14, 15]),
      ([0, 1, 2, 3, 4, 5, 6, 7, 8, 9, 10, 11, 12, 13, 14, 15, 18, 19], [16, 17]),
      ([0, 1, 2, 3, 4, 5, 6, 7, 8, 9, 10, 11, 12, 13, 14, 15, 16, 17], [18, 19])]"

text \<open>States that share the data of the second experiment.\<close>

definition demo_data :: "(real, string \<times> real) globals \<Rightarrow> bool" where
  "demo_data st =
     (X_train st = replicate 20 1 \<and> y_train st = replicate 20 (- 1)
      \<and> X_test st = [1, 1] \<and> y_test st = [- 1, - 1]
      \<and> folds_shuffle_param st = False \<and> target_inverse_transformer st = None)"


section \<open>Properties\<close>

subsection \<open>Folds, scores and the tracker's hold-out prediction\<close>

lemma length_chunks: "length (chunks ss xs) = length ss"
  by (induction ss arbitrary: xs) simp_all

lemma kf_split_length: "kf_split L sh k dX dy = Inr splits \<Longrightarrow> length splits = k"
  by (auto simp: kf_split_def Let_def length_chunks fold_sizes_def split: if_splits)

lemma cv_loop_length:
  "cv_loop L t dX dy model splits = Inr (model', rows) \<Longrightarrow> length rows = length splits"
proof (induction splits arbitrary: model rows)
  case Nil
  then show ?case by simp
next
  case (Cons s splits)
  obtain tr te where s: "s = (tr, te)" by (cases s)
  from Cons.prems show ?case
    unfolding s by (auto simp: Let_def split: sum.splits prod.splits dest: Cons.IH)
qed

lemma compile_metrics_rmse: "compile_metrics ytest pred = Inr row \<Longrightarrow> RMSE row = sqrt (MSE row)"
  by (auto simp: compile_metrics_def Let_def split: if_splits)

lemma cv_loop_rmse:
  "cv_loop L t dX dy model splits = Inr (model', rows) \<Longrightarrow> r \<in> set rows \<Longrightarrow> RMSE r = sqrt (MSE r)"
proof (induction splits arbitrary: model rows)
  case Nil
  then show ?case by simp
next
  case (Cons s splits)
  obtain tr te where s: "s = (tr, te)" by (cases s)
  from Cons.prems show ?case
    unfolding s by (auto simp: Let_def split: sum.splits prod.splits dest: Cons.IH compile_metrics_rmse)
qed

lemma cross_validate_length:
  "cross_validate L st k model = Inr (model', rows) \<Longrightarrow> length rows = k"
  by (auto simp: cross_validate_def split: sum.splits dest: cv_loop_length kf_split_length)

lemma cross_validate_rmse:
  "cross_validate L st k model = Inr (model', rows) \<Longrightarrow> r \<in> set rows \<Longrightarrow> RMSE r = sqrt (MSE r)"
  by (auto simp: cross_validate_def split: sum.splits dest: cv_loop_rmse)

lemma predict_model_holdout:
  "predict_model L estimator None rnd st = Returned p st' \<Longrightarrow>
   \<exists>row. st' = st\<lparr>display_container := display_container st @ [HoldoutScore row]\<rparr>"
  by (auto simp: predict_model_def Let_def split: sum.splits)

lemma log_holdout_state: "log_holdout L model st = Returned u st1 \<Longrightarrow> st1 = st"
  by (auto simp: log_holdout_def pull_def display_pop_def split: outcome.splits if_splits
      dest!: predict_model_holdout)

lemma KFold_Inr: "KFold fold_n = Inr kf \<Longrightarrow> 2 \<le> fold_n \<and> kf = nat fold_n"
  by (auto simp: KFold_def split: if_splits)

lemma create_model_returned:
  assumes "create_model L estimator ensemble method fold_n rnd True system kwargs st = Returned m st'"
  shows "\<exists>model1 rows. 2 \<le> fold_n
     \<and> cross_validate L st (nat fold_n) (wrap_method L method (select_estimator L estimator kwargs)) = Inr (model1, rows)
     \<and> m = fit L model1 (X_train st) (y_train st)
     \<and> st' = store_results (model_results rnd rows) m st"
  using assms
  by (auto simp: create_model_def Let_def split: if_splits sum.splits outcome.splits prod.splits
      dest!: KFold_Inr log_holdout_state)

lemma create_model_no_cv:
  assumes "create_model L estimator ensemble method fold_n rnd False system kwargs st = Returned m st'"
  shows "st' = st \<and> m = fit L (wrap_method L method (select_estimator L estimator kwargs)) (X_train st) (y_train st)"
  using assms
  by (auto simp: create_model_def Let_def split: if_splits sum.splits)

subsection \<open>Rounding keeps a value within half a unit\<close>

lemma rint_error: "\<bar>of_int (rint x) - x\<bar> \<le> 1 / 2"
proof -
  have lo: "of_int \<lfloor>x\<rfloor> \<le> x" and hi: "x < of_int \<lfloor>x\<rfloor> + 1"
    by linarith+
  consider "x - of_int \<lfloor>x\<rfloor> < 1 / 2" | "1 / 2 < x - of_int \<lfloor>x\<rfloor>"
    | "x - of_int \<lfloor>x\<rfloor> = 1 / 2" by linarith
  then show ?thesis
  proof cases
    case 1
    then have "rint x = \<lfloor>x\<rfloor>" by (simp add: rint_def Let_def)
    with 1 lo show ?thesis by simp
  next
    case 2
    then have "rint x = \<lfloor>x\<rfloor> + 1" by (simp add: rint_def Let_def)
    with 2 hi show ?thesis by simp
  next
    case 3
    then have "rint x = \<lfloor>x\<rfloor> \<or> rint x = \<lfloor>x\<rfloor> + 1" by (simp add: rint_def Let_def)
    with 3 show ?thesis by auto
  qed
qed

lemma np_round_error: "\<bar>np_round d x - x\<bar> \<le> ulp d / 2"
proof (cases "0 \<le> d")
  case True
  define p :: real where "p = 10 ^ nat d"
  define k :: real where "k = of_int (rint (x * p))"
  have p: "0 < p" by (simp add: p_def)
  have "\<bar>k - x * p\<bar> \<le> 1 / 2" unfolding k_def by (rule rint_error)
  then have "\<bar>k - x * p\<bar> / p \<le> (1 / 2) / p"
    using p by (intro divide_right_mono) simp_all
  moreover have "\<bar>k - x * p\<bar> / p = \<bar>k / p - x\<bar>"
  proof -
    have "k / p - x = (k - x * p) / p" using p by (simp add: field_simps)
    then show ?thesis using p by (simp add: abs_divide)
  qed
  moreover have "np_round d x = k / p" "ulp d / 2 = (1 / 2) / p"
    using True by (simp_all add: np_round_def ulp_def p_def k_def)
  ultimately show ?thesis by metis
next
  case False
  define p :: real where "p = 10 ^ nat (- d)"
  define k :: real where "k = of_int (rint (x / p))"
  have p: "0 < p" by (simp add: p_def)
  have "\<bar>k - x / p\<bar> \<le> 1 / 2" unfolding k_def by (rule rint_error)
  then have "\<bar>k - x / p\<bar> * p \<le> (1 / 2) * p"
    using p by (intro mult_right_mono) simp_all
  moreover have "\<bar>k - x / p\<bar> * p = \<bar>k * p - x\<bar>"
  proof -
    have "k * p - x = (k - x / p) * p" using p by (simp add: field_simps)
    then show ?thesis using p by (simp add: abs_mult)
  qed
  moreover have "np_round d x = k * p" "ulp d / 2 = (1 / 2) * p"
    using False by (simp_all add: np_round_def ulp_def p_def k_def)
  ultimately show ?thesis by metis
qed

lemma sum_list_abs_diff_le:
  "length xs = length ys \<Longrightarrow> (\<And>i. i < length xs \<Longrightarrow> \<bar>xs ! i - ys ! i\<bar> \<le> e) \<Longrightarrow>
   \<bar>sum_list xs - sum_list ys\<bar> \<le> real (length xs) * (e::real)"
proof (induction xs ys rule: list_induct2)
  case Nil
  then show ?case by simp
next
  case (Cons x xs y ys)
  have h: "\<bar>x - y\<bar> \<le> e" using Cons.prems [of 0] by simp
  have "\<And>i. i < length xs \<Longrightarrow> \<bar>xs ! i - ys ! i\<bar> \<le> e"
    using Cons.prems [of "Suc _"] by simp
  then have "\<bar>sum_list xs - sum_list ys\<bar> \<le> real (length xs) * e"
    by (rule Cons.IH)
  with h show ?case by (simp add: algebra_simps abs_if split: if_splits)
qed

lemma mean_of_rounded_close:
  assumes "xs \<noteq> []"
  shows "\<bar>np_mean (map (np_round d) xs) - np_mean xs\<bar> \<le> ulp d / 2"
proof -
  define n where "n = real (length xs)"
  define a where "a = sum_list (map (np_round d) xs)"
  define b where "b = sum_list xs"
  define e where "e = ulp d / 2"
  have n: "0 < n" using assms by (simp add: n_def)
  have "\<bar>a - b\<bar> \<le> real (length (map (np_round d) xs)) * e"
    unfolding a_def b_def e_def
  proof (rule sum_list_abs_diff_le)
    show "length (map (np_round d) xs) = length xs" by simp
  next
    fix i assume "i < length (map (np_round d) xs)"
    then have "map (np_round d) xs ! i = np_round d (xs ! i)" by simp
    then show "\<bar>map (np_round d) xs ! i - xs ! i\<bar> \<le> ulp d / 2"
      using np_round_error [of d "xs ! i"] by simp
  qed
  then have "\<bar>a - b\<bar> \<le> e * n" by (simp add: n_def mult.commute)
  then have "\<bar>a - b\<bar> / n \<le> e"
    using n by (simp add: pos_divide_le_eq)
  moreover have "\<bar>a - b\<bar> / n = \<bar>a / n - b / n\<bar>"
  proof -
    have "a / n - b / n = (a - b) / n" by (simp add: diff_divide_distrib)
    then show ?thesis using n by (simp add: abs_divide)
  qed
  moreover have "np_mean (map (np_round d) xs) = a / n" "np_mean xs = b / n"
    by (simp_all add: np_mean_def n_def a_def b_def)
  ultimately show ?thesis unfolding e_def by metis
qed

lemma rounded_mean_close:
  assumes "xs \<noteq> []"
  shows "\<bar>np_round d (np_mean xs) - np_mean (map (np_round d) xs)\<bar> \<le> ulp d"
proof -
  have a: "\<bar>np_round d (np_mean xs) - np_mean xs\<bar> \<le> ulp d / 2"
    by (rule np_round_error)
  have b: "\<bar>np_mean (map (np_round d) xs) - np_mean xs\<bar> \<le> ulp d / 2"
    by (rule mean_of_rounded_close [OF assms])
  from a b show ?thesis by linarith
qed

subsection \<open>The shape of a score grid\<close>

lemma length_model_results: "length (model_results rnd rows) = length rows + 2"
  by (simp add: model_results_def)

lemma labels_model_results:
  "map fst (model_results rnd rows) = map Fold [0..<length rows] @ [Mean, SD]"
  by (simp add: model_results_def map_idI comp_def case_prod_unfold)

lemma nth_model_results_fold:
  "i < length rows \<Longrightarrow> model_results rnd rows ! i = (Fold i, round_scores rnd (rows ! i))"
  by (simp add: model_results_def nth_append)

lemma nth_model_results_mean:
  "model_results rnd rows ! length rows = (Mean, round_scores rnd (aggregate np_mean rows))"
  by (simp add: model_results_def nth_append)

lemma nth_model_results_sd:
  "model_results rnd rows ! Suc (length rows) = (SD, round_scores rnd (aggregate np_std rows))"
  by (simp add: model_results_def nth_append)

lemma take_model_results:
  "take (length rows) (model_results rnd rows) = map (\<lambda>(l, r). (l, round_scores rnd r)) (zip (map Fold [0..<length rows]) rows)"
  by (simp add: model_results_def)

lemma column_cases:
  "column cd = Some c \<Longrightarrow>
   (cd = ''MAE'' \<and> c = MAE) \<or> (cd = ''MSE'' \<and> c = MSE) \<or> (cd = ''RMSE'' \<and> c = RMSE)
   \<or> (cd = ''R2'' \<and> c = R2) \<or> (cd = ''RMSLE'' \<and> c = RMSLE) \<or> (cd = ''MAPE'' \<and> c = MAPE)"
  by (simp add: column_def split: if_splits)

lemma column_round_aggregate:
  "column cd = Some c \<Longrightarrow> c (round_scores rnd (aggregate f rows)) = np_round rnd (f (map c rows))"
  by (drule column_cases) (auto simp: round_scores_def aggregate_def)

lemma mean_entry_model_results:
  "column cd = Some c \<Longrightarrow>
   mean_entry (model_results rnd rows) cd = Inr (np_round rnd (np_mean (map c rows)))"
  by (simp add: mean_entry_def model_results_def column_round_aggregate)

lemma from_end_snoc: "from_end (xs @ [x]) 0 = Inr x"
  by (simp add: from_end_def)

lemma from_end_snoc2: "from_end (xs @ [x, z]) 1 = Inr x"
  by (simp add: from_end_def nth_append)

lemma map_after_zip:
  "length xs = length ys \<Longrightarrow> map (\<lambda>r. f (snd r)) (zip xs ys) = map f ys"
  by (induction xs ys rule: list_induct2) simp_all

subsection \<open>Choosing the better model\<close>

lemma keep_better_returned:
  assumes "keep_better compare_dimension candidate base_model st = Returned best st'"
  shows "\<exists>cd base_grid candidate_grid s_b s_c.
       compare_dimension = Some cd
     \<and> from_end (create_model_container st) 0 = Inr base_grid
     \<and> from_end (create_model_container st) 1 = Inr candidate_grid
     \<and> mean_entry base_grid cd = Inr s_b
     \<and> mean_entry candidate_grid cd = Inr s_c
     \<and> best = (if cd = ''R2'' then (if s_c > s_b then candidate else base_model)
                else (if s_c < s_b then candidate else base_model))
     \<and> display_container st \<noteq> []
     \<and> st' = st\<lparr>display_container := butlast (display_container st)\<rparr>"
proof -
  obtain base_grid where bg: "from_end (create_model_container st) 0 = Inr base_grid"
    using assms by (cases "from_end (create_model_container st) 0") (simp_all add: keep_better_def)
  obtain cd where cd: "compare_dimension = Some cd"
    using assms bg by (cases compare_dimension) (simp_all add: keep_better_def)
  obtain s_b where sb: "mean_entry base_grid cd = Inr s_b"
    using assms bg cd by (cases "mean_entry base_grid cd") (simp_all add: keep_better_def)
  obtain candidate_grid where cg: "from_end (create_model_container st) 1 = Inr candidate_grid"
    using assms bg cd sb by (cases "from_end (create_model_container st) 1") (simp_all add: keep_better_def)
  obtain s_c where sc: "mean_entry candidate_grid cd = Inr s_c"
    using assms bg cd sb cg by (cases "mean_entry candidate_grid cd") (simp_all add: keep_better_def)
  have ne: "display_container st \<noteq> []"
    using assms bg cd sb cg sc
    by (simp add: keep_better_def Let_def display_pop_def split: if_splits)
  have "best = (if cd = ''R2'' then (if s_c > s_b then candidate else base_model)
                else (if s_c < s_b then candidate else base_model))
        \<and> st' = st\<lparr>display_container := butlast (display_container st)\<rparr>"
    using assms bg cd sb cg sc ne
    by (simp add: keep_better_def Let_def display_pop_def)
  with bg cd sb cg sc ne show ?thesis by blast
qed

lemma store_results_fields:
  "create_model_container (store_results g m st) = create_model_container st @ [g]"
  "master_model_container (store_results g m st) = master_model_container st @ [m]"
  "display_container (store_results g m st) = display_container st @ [ScoreGrid g]"
  "X_train (store_results g m st) = X_train st"
  "y_train (store_results g m st) = y_train st"
  "X_test (store_results g m st) = X_test st"
  "y_test (store_results g m st) = y_test st"
  "X_full (store_results g m st) = X_full st"
  "y_full (store_results g m st) = y_full st"
  "folds_shuffle_param (store_results g m st) = folds_shuffle_param st"
  "logging_param (store_results g m st) = logging_param st"
  "prep_pipe (store_results g m st) = prep_pipe st"
  "target_inverse_transformer (store_results g m st) = target_inverse_transformer st"
  "files (store_results g m st) = files st"
  by (simp_all add: store_results_def)

text \<open>What the block under \<^verbatim>\<open>choose_better\<close> does to a state that already holds the
  candidate's results.\<close>

lemma choose_better_block:
  assumes cm: "create_model L estimator False None 10 4 True system [] (store_results (model_results rnd rows) candidate st)
                 = Returned base_model st2"
    and kb: "keep_better compare_dimension candidate base_model st2 = Returned best st3"
  shows "\<exists>cd c rows_b.
       compare_dimension = Some cd \<and> column cd = Some c
     \<and> best = (if cd = ''R2''
               then (if np_round rnd (np_mean (map c rows)) > np_round 4 (np_mean (map c rows_b)) then candidate else base_model)
               else (if np_round rnd (np_mean (map c rows)) < np_round 4 (np_mean (map c rows_b)) then candidate else base_model))
     \<and> create_model_container st3 = create_model_container st @ [model_results rnd rows, model_results 4 rows_b]
     \<and> master_model_container st3 = master_model_container st @ [candidate, base_model]
     \<and> display_container st3 = display_container st @ [ScoreGrid (model_results rnd rows)]
     \<and> logging_param st3 = logging_param st"
proof -
  from create_model_returned [OF cm] obtain model1 rows_b where
    st2: "st2 = store_results (model_results 4 rows_b) base_model (store_results (model_results rnd rows) candidate st)"
    by blast
  from keep_better_returned [OF kb] obtain cd base_grid candidate_grid s_b s_c where
    cd: "compare_dimension = Some cd"
    and bg: "from_end (create_model_container st2) 0 = Inr base_grid"
    and cg: "from_end (create_model_container st2) 1 = Inr candidate_grid"
    and sb: "mean_entry base_grid cd = Inr s_b"
    and sc: "mean_entry candidate_grid cd = Inr s_c"
    and best: "best = (if cd = ''R2'' then (if s_c > s_b then candidate else base_model)
                else (if s_c < s_b then candidate else base_model))"
    and st3: "st3 = st2\<lparr>display_container := butlast (display_container st2)\<rparr>"
    by blast
  have cmc: "create_model_container st2 = create_model_container st @ [model_results rnd rows, model_results 4 rows_b]"
    by (simp add: st2 store_results_fields)
  from bg have bg': "base_grid = model_results 4 rows_b"
    by (simp add: cmc from_end_def nth_append)
  from cg have cg': "candidate_grid = model_results rnd rows"
    by (simp add: cmc from_end_def nth_append)
  from sb obtain c where c: "column cd = Some c"
    by (auto simp: mean_entry_def split: option.splits)
  have "s_b = np_round 4 (np_mean (map c rows_b))"
    using sb by (simp add: bg' mean_entry_model_results [OF c])
  moreover have "s_c = np_round rnd (np_mean (map c rows))"
    using sc by (simp add: cg' mean_entry_model_results [OF c])
  moreover have "master_model_container st3 = master_model_container st @ [candidate, base_model]"
    by (simp add: st3 st2 store_results_fields)
  moreover have "display_container st3 = display_container st @ [ScoreGrid (model_results rnd rows)]"
    by (simp add: st3 st2 store_results_fields butlast_append)
  moreover have "create_model_container st3 = create_model_container st @ [model_results rnd rows, model_results 4 rows_b]"
    by (simp add: st3 cmc)
  moreover have "logging_param st3 = logging_param st"
    by (simp add: st3 st2 store_results_fields)
  ultimately show ?thesis using cd c best by blast
qed

lemma choose_better_state:
  assumes cm: "create_model L estimator False None 10 4 True system [] (store_results (model_results rnd rows) candidate st)
                 = Returned base_model st2"
    and kb: "keep_better compare_dimension candidate base_model st2 = Returned best st3"
  shows "\<exists>rows_b. st3 = st\<lparr>create_model_container := create_model_container st @ [model_results rnd rows, model_results 4 rows_b],
                    display_container := display_container st @ [ScoreGrid (model_results rnd rows)],
                    master_model_container := master_model_container st @ [candidate, base_model]\<rparr>
      \<and> (best = candidate \<or> best = base_model)"
proof -
  from create_model_returned [OF cm] obtain model1 rows_b where
    st2: "st2 = store_results (model_results 4 rows_b) base_model (store_results (model_results rnd rows) candidate st)"
    by blast
  from keep_better_returned [OF kb] have
    st3: "st3 = st2\<lparr>display_container := butlast (display_container st2)\<rparr>"
    and best: "best = candidate \<or> best = base_model"
    by auto
  have "st3 = st\<lparr>create_model_container := create_model_container st @ [model_results rnd rows, model_results 4 rows_b],
                    display_container := display_container st @ [ScoreGrid (model_results rnd rows)],
                    master_model_container := master_model_container st @ [candidate, base_model]\<rparr>"
    by (simp add: st3 st2 store_results_def butlast_append)
  with best show ?thesis by blast
qed

subsection \<open>What a returning \<^verbatim>\<open>tune_model\<close> or \<^verbatim>\<open>ensemble_model\<close> has done\<close>

lemma logging_tail:
  assumes "(case (if logging_param st3 then log_holdout L m st3 else Returned () st3) of
              Raised e s \<Rightarrow> Raised e s
            | Returned u st4 \<Rightarrow> Returned m st4) = Returned m' st'"
  shows "m' = m \<and> st' = st3"
  using assms by (auto split: if_splits outcome.splits dest: log_holdout_state)

lemma tune_model_returned:
  assumes "tune_model L estimator fold_n rnd n_iter custom_grid optimize choose_better st = Returned m st'"
  shows "\<exists>e model1 rows tuned.
       estimator = Obj e \<and> optimize \<in> set allowed_optimize \<and> 2 \<le> fold_n
     \<and> length rows = nat fold_n
     \<and> tuned = fit L model1 (X_train st) (y_train st)
     \<and> (if choose_better
        then (\<exists>est system base st2.
                create_model L est False None 10 4 True system []
                  (store_results (model_results rnd rows) tuned st) = Returned base st2
              \<and> keep_better (Some optimize) tuned base st2 = Returned m st')
        else m = tuned \<and> st' = store_results (model_results rnd rows) tuned st)"
proof -
  obtain e where e: "estimator = Obj e"
    using assms by (cases estimator) (simp_all add: tune_model_def)
  have opt: "optimize \<in> set allowed_optimize"
    using assms e by (simp add: tune_model_def split: if_splits)
  obtain kf where kf: "KFold fold_n = Inr kf"
    using assms e opt by (cases "KFold fold_n") (simp_all add: tune_model_def Let_def)
  obtain splits where sp: "kf_split L (folds_shuffle_param st) kf (X_train st) (y_train st) = Inr splits"
    using assms e opt kf
    by (cases "kf_split L (folds_shuffle_param st) kf (X_train st) (y_train st)")
       (simp_all add: tune_model_def Let_def)
  define mn where "mn = (if contains ''catboost'' (get_model_name L e) then ''CatBoostRegressor''
                         else get_model_name L e)"
  obtain tag where tag: "map_of model_dict mn = Some tag"
    using assms e opt kf sp
    by (cases "map_of model_dict mn") (simp_all add: tune_model_def Let_def mn_def)
  define model where "model = RandomizedSearchCV L tag e custom_grid (scoring_of optimize)
                                             n_iter (X_train st) (y_train st)"
  obtain model1 rows where cv:
    "cv_loop L (target_inverse_transformer st) (X_train st) (y_train st) model splits = Inr (model1, rows)"
    using assms e opt kf sp tag
    by (cases "cv_loop L (target_inverse_transformer st) (X_train st) (y_train st) model splits")
       (auto simp: tune_model_def Let_def mn_def model_def)
  define tuned where "tuned = fit L model1 (X_train st) (y_train st)"
  define st1 where "st1 = store_results (model_results rnd rows) tuned st"
  have len: "length rows = nat fold_n"
    using cv_loop_length [OF cv] kf_split_length [OF sp] KFold_Inr [OF kf] by simp
  have main: "(case (if choose_better
                then (case (if tag \<in> set [''Bagging'', ''ada'']
                            then create_model L (Obj e) False None 10 4 True False [] st1
                            else create_model L (Tag tag) False None 10 4 True True [] st1) of
                        Raised e s \<Rightarrow> Raised e s
                      | Returned base_model st2 \<Rightarrow>
                          keep_better (Some optimize) tuned base_model st2)
                else Returned tuned st1) of
            Raised e s \<Rightarrow> Raised e s
          | Returned best_model1 st3 \<Rightarrow>
              (case (if logging_param st3 then log_holdout L best_model1 st3
                     else Returned () st3) of
                 Raised e s \<Rightarrow> Raised e s
               | Returned u st4 \<Rightarrow> Returned best_model1 st4)) = Returned m st'"
    using assms e opt kf sp tag [unfolded mn_def] cv [unfolded model_def]
    unfolding tuned_def st1_def
    by (simp add: tune_model_def Let_def del: set_simps)
  show ?thesis
  proof (cases choose_better)
    case False
    with main have "m = tuned \<and> st' = st1"
      by (auto split: if_splits outcome.splits dest: log_holdout_state)
    with False e opt len KFold_Inr [OF kf] show ?thesis
      by (intro exI [of _ e] exI [of _ model1] exI [of _ rows] exI [of _ tuned])
         (simp add: tuned_def st1_def)
  next
    case True
    define est where "est = (if tag \<in> set [''Bagging'', ''ada''] then Obj e else Tag tag)"
    define system where "system = (tag \<notin> set [''Bagging'', ''ada''])"
    have cm_eq: "(if tag \<in> set [''Bagging'', ''ada'']
                            then create_model L (Obj e) False None 10 4 True False [] st1
                            else create_model L (Tag tag) False None 10 4 True True [] st1)
          = create_model L est False None 10 4 True system [] st1"
      by (simp add: est_def system_def)
    from main True obtain base st2 where
      cm: "create_model L est False None 10 4 True system [] st1 = Returned base st2"
      unfolding cm_eq by (cases "create_model L est False None 10 4 True system [] st1") simp_all
    from main True cm obtain best st3 where
      kb: "keep_better (Some optimize) tuned base st2 = Returned best st3"
      unfolding cm_eq by (cases "keep_better (Some optimize) tuned base st2") simp_all
    from main True cm kb have "m = best \<and> st' = st3"
      unfolding cm_eq by (auto split: if_splits outcome.splits dest: log_holdout_state)
    with cm kb have "\<exists>est system base st2.
                create_model L est False None 10 4 True system []
                  (store_results (model_results rnd rows) tuned st) = Returned base st2
              \<and> keep_better (Some optimize) tuned base st2 = Returned m st'"
      unfolding st1_def by blast
    with True e opt len KFold_Inr [OF kf] show ?thesis
      by (intro exI [of _ e] exI [of _ model1] exI [of _ rows] exI [of _ tuned])
         (simp add: tuned_def)
  qed
qed

lemma ensemble_model_returned:
  assumes "ensemble_model L estimator method fold_n n_estimators rnd choose_better optimize st = Returned m st'"
  shows "\<exists>model1 rows ensembled.
       method \<in> set available_method \<and> 2 \<le> fold_n
     \<and> length rows = nat fold_n
     \<and> ensembled = fit L model1 (X_train st) (y_train st)
     \<and> (if choose_better
        then (\<exists>base st2.
                create_model L (Obj estimator) False None 10 4 True True []
                  (store_results (model_results rnd rows) ensembled st) = Returned base st2
              \<and> keep_better (compare_dimension_of optimize) ensembled base st2 = Returned m st')
        else m = ensembled \<and> st' = store_results (model_results rnd rows) ensembled st)"
proof -
  have meth: "method \<in> set available_method"
    using assms by (simp add: ensemble_model_def split: if_splits)
  obtain kf where kf: "KFold fold_n = Inr kf"
    using assms meth by (cases "KFold fold_n") (simp_all add: ensemble_model_def Let_def)
  define model where "model = (if method = ''Bagging'' then BaggingRegressor L estimator n_estimators
                      else AdaBoostRegressor L estimator n_estimators)"
  obtain model1 rows where cv: "cross_validate L st kf model = Inr (model1, rows)"
    using assms meth kf
    by (cases "cross_validate L st kf model") (auto simp: ensemble_model_def Let_def model_def)
  define ensembled where "ensembled = fit L model1 (X_train st) (y_train st)"
  define st1 where "st1 = store_results (model_results rnd rows) ensembled st"
  have len: "length rows = nat fold_n"
    using cross_validate_length [OF cv] KFold_Inr [OF kf] by simp
  have main: "(case (if choose_better
                then (case create_model L (Obj estimator) False None 10 4 True True [] st1 of
                        Raised e s \<Rightarrow> Raised e s
                      | Returned base_model st2 \<Rightarrow>
                          keep_better (compare_dimension_of optimize) ensembled base_model st2)
                else Returned ensembled st1) of
            Raised e s \<Rightarrow> Raised e s
          | Returned model3 st3 \<Rightarrow>
              (case (if logging_param st3 then log_holdout L model3 st3
                     else Returned () st3) of
                 Raised e s \<Rightarrow> Raised e s
               | Returned u st4 \<Rightarrow> Returned model3 st4)) = Returned m st'"
    using assms meth kf cv [unfolded model_def]
    unfolding ensembled_def st1_def
    by (simp add: ensemble_model_def Let_def del: set_simps)
  show ?thesis
  proof (cases choose_better)
    case False
    with main have "m = ensembled \<and> st' = st1"
      by (auto split: if_splits outcome.splits dest: log_holdout_state)
    with False meth len KFold_Inr [OF kf] show ?thesis
      by (intro exI [of _ model1] exI [of _ rows] exI [of _ ensembled])
         (simp add: ensembled_def st1_def)
  next
    case True
    from main True obtain base st2 where
      cm: "create_model L (Obj estimator) False None 10 4 True True [] st1 = Returned base st2"
      by (cases "create_model L (Obj estimator) False None 10 4 True True [] st1") simp_all
    from main True cm obtain best st3 where
      kb: "keep_better (compare_dimension_of optimize) ensembled base st2 = Returned best st3"
      by (cases "keep_better (compare_dimension_of optimize) ensembled base st2") simp_all
    from main True cm kb have "m = best \<and> st' = st3"
      by (auto split: if_splits outcome.splits dest: log_holdout_state)
    with cm kb have "\<exists>base st2.
                create_model L (Obj estimator) False None 10 4 True True []
                  (store_results (model_results rnd rows) ensembled st) = Returned base st2
              \<and> keep_better (compare_dimension_of optimize) ensembled base st2 = Returned m st'"
      unfolding st1_def by blast
    with True meth len KFold_Inr [OF kf] show ?thesis
      by (intro exI [of _ model1] exI [of _ rows] exI [of _ ensembled])
         (simp add: ensembled_def)
  qed
qed

text \<open>Scores on the chosen metric: which of two is strictly better, and which is no worse.\<close>

lemma allowed_optimize_column:
  "optimize \<in> set allowed_optimize \<Longrightarrow> \<exists>c. column optimize = Some c"
  by (auto simp: allowed_optimize_def column_def)

lemma compare_dimension_of_Some:
  "compare_dimension_of optimize = Some cd \<Longrightarrow> cd = optimize"
  by (simp add: compare_dimension_of_def split: if_splits)

lemma tune_model_eval:
  assumes "optimize \<in> set allowed_optimize"
    and "KFold fold_n = Inr kf"
    and "kf_split L (folds_shuffle_param st) kf (X_train st) (y_train st) = Inr splits"
    and "map_of model_dict (if contains ''catboost'' (get_model_name L e) then ''CatBoostRegressor''
                            else get_model_name L e) = Some tag"
    and "cv_loop L (target_inverse_transformer st) (X_train st) (y_train st)
           (RandomizedSearchCV L tag e custom_grid (scoring_of optimize) n_iter (X_train st) (y_train st)) splits
         = Inr (model1, rows)"
    and "tuned = fit L model1 (X_train st) (y_train st)"
    and "st1 = store_results (model_results rnd rows) tuned st"
  shows "tune_model L (Obj e) fold_n rnd n_iter custom_grid optimize choose_better st =
     (case (if choose_better
            then (case (if tag \<in> set [''Bagging'', ''ada'']
                        then create_model L (Obj e) False None 10 4 True False [] st1
                        else create_model L (Tag tag) False None 10 4 True True [] st1) of
                    Raised e s \<Rightarrow> Raised e s
                  | Returned base_model st2 \<Rightarrow> keep_better (Some optimize) tuned base_model st2)
            else Returned tuned st1) of
        Raised e s \<Rightarrow> Raised e s
      | Returned best_model1 st3 \<Rightarrow>
          (case (if logging_param st3 then log_holdout L best_model1 st3 else Returned () st3) of
             Raised e s \<Rightarrow> Raised e s
           | Returned u st4 \<Rightarrow> Returned best_model1 st4))"
  using assms(1-5) unfolding assms(6,7)
  by (simp add: tune_model_def Let_def del: set_simps)

lemma ensemble_model_eval:
  assumes "method \<in> set available_method"
    and "KFold fold_n = Inr kf"
    and "cross_validate L st kf (if method = ''Bagging'' then BaggingRegressor L estimator n_estimators
                      else AdaBoostRegressor L estimator n_estimators) = Inr (model1, rows)"
    and "ensembled = fit L model1 (X_train st) (y_train st)"
    and "st1 = store_results (model_results rnd rows) ensembled st"
  shows "ensemble_model L estimator method fold_n n_estimators rnd choose_better optimize st =
     (case (if choose_better
            then (case create_model L (Obj estimator) False None 10 4 True True [] st1 of
                    Raised e s \<Rightarrow> Raised e s
                  | Returned base_model st2 \<Rightarrow>
                      keep_better (compare_dimension_of optimize) ensembled base_model st2)
            else Returned ensembled st1) of
        Raised e s \<Rightarrow> Raised e s
      | Returned model3 st3 \<Rightarrow>
          (case (if logging_param st3 then log_holdout L model3 st3 else Returned () st3) of
             Raised e s \<Rightarrow> Raised e s
           | Returned u st4 \<Rightarrow> Returned model3 st4))"
  using assms(1-3) unfolding assms(4,5)
  by (simp add: ensemble_model_def Let_def del: set_simps)

lemma tune_model_choose_better:
  assumes "tune_model L estimator fold_n rnd n_iter custom_grid optimize True st = Returned m st'"
  shows "\<exists>c tuned base rows_t rows_b.
       column optimize = Some c
     \<and> length rows_t = nat fold_n
     \<and> st' = st\<lparr>create_model_container := create_model_container st @ [model_results rnd rows_t, model_results 4 rows_b],
                  display_container := display_container st @ [ScoreGrid (model_results rnd rows_t)],
                  master_model_container := master_model_container st @ [tuned, base]\<rparr>
     \<and> m = (if optimize = ''R2''
            then (if np_round rnd (np_mean (map c rows_t)) > np_round 4 (np_mean (map c rows_b)) then tuned else base)
            else (if np_round rnd (np_mean (map c rows_t)) < np_round 4 (np_mean (map c rows_b)) then tuned else base))"
proof -
  from tune_model_returned [OF assms] obtain rows tuned est system base st2 where
    len: "length rows = nat fold_n"
    and cm: "create_model L est False None 10 4 True system []
                  (store_results (model_results rnd rows) tuned st) = Returned base st2"
    and kb: "keep_better (Some optimize) tuned base st2 = Returned m st'"
    by auto
  from choose_better_block [OF cm kb] obtain c rows_b where
    c: "column optimize = Some c"
    and m: "m = (if optimize = ''R2''
               then (if np_round rnd (np_mean (map c rows)) > np_round 4 (np_mean (map c rows_b)) then tuned else base)
               else (if np_round rnd (np_mean (map c rows)) < np_round 4 (np_mean (map c rows_b)) then tuned else base))"
    and cmc: "create_model_container st' = create_model_container st @ [model_results rnd rows, model_results 4 rows_b]"
    by auto
  from choose_better_state [OF cm kb] obtain rows_b' where
    st': "st' = st\<lparr>create_model_container := create_model_container st @ [model_results rnd rows, model_results 4 rows_b'],
                    display_container := display_container st @ [ScoreGrid (model_results rnd rows)],
                    master_model_container := master_model_container st @ [tuned, base]\<rparr>"
    by blast
  from cmc st' have "model_results 4 rows_b' = model_results 4 rows_b"
    by simp
  with st' have "st' = st\<lparr>create_model_container := create_model_container st @ [model_results rnd rows, model_results 4 rows_b],
                    display_container := display_container st @ [ScoreGrid (model_results rnd rows)],
                    master_model_container := master_model_container st @ [tuned, base]\<rparr>"
    by simp
  with c len m show ?thesis by blast
qed

lemma ensemble_model_choose_better:
  assumes "ensemble_model L estimator method fold_n n_estimators rnd True optimize st = Returned m st'"
  shows "\<exists>c ensembled base rows_e rows_b.
       column optimize = Some c
     \<and> length rows_e = nat fold_n
     \<and> st' = st\<lparr>create_model_container := create_model_container st @ [model_results rnd rows_e, model_results 4 rows_b],
                  display_container := display_container st @ [ScoreGrid (model_results rnd rows_e)],
                  master_model_container := master_model_container st @ [ensembled, base]\<rparr>
     \<and> m = (if optimize = ''R2''
            then (if np_round rnd (np_mean (map c rows_e)) > np_round 4 (np_mean (map c rows_b)) then ensembled else base)
            else (if np_round rnd (np_mean (map c rows_e)) < np_round 4 (np_mean (map c rows_b)) then ensembled else base))"
proof -
  from ensemble_model_returned [OF assms] obtain rows ensembled base st2 where
    len: "length rows = nat fold_n"
    and cm: "create_model L (Obj estimator) False None 10 4 True True []
                  (store_results (model_results rnd rows) ensembled st) = Returned base st2"
    and kb: "keep_better (compare_dimension_of optimize) ensembled base st2 = Returned m st'"
    by auto
  from choose_better_block [OF cm kb] obtain cd c rows_b where
    cd: "compare_dimension_of optimize = Some cd"
    and c: "column cd = Some c"
    and m: "m = (if cd = ''R2''
               then (if np_round rnd (np_mean (map c rows)) > np_round 4 (np_mean (map c rows_b)) then ensembled else base)
               else (if np_round rnd (np_mean (map c rows)) < np_round 4 (np_mean (map c rows_b)) then ensembled else base))"
    and cmc: "create_model_container st' = create_model_container st @ [model_results rnd rows, model_results 4 rows_b]"
    by auto
  have cd': "cd = optimize"
    by (rule compare_dimension_of_Some [OF cd])
  from choose_better_state [OF cm kb] obtain rows_b' where
    st': "st' = st\<lparr>create_model_container := create_model_container st @ [model_results rnd rows, model_results 4 rows_b'],
                    display_container := display_container st @ [ScoreGrid (model_results rnd rows)],
                    master_model_container := master_model_container st @ [ensembled, base]\<rparr>"
    by blast
  from cmc st' have "model_results 4 rows_b' = model_results 4 rows_b"
    by simp
  with st' have "st' = st\<lparr>create_model_container := create_model_container st @ [model_results rnd rows, model_results 4 rows_b],
                    display_container := display_container st @ [ScoreGrid (model_results rnd rows)],
                    master_model_container := master_model_container st @ [ensembled, base]\<rparr>"
    by simp
  with c len m cd' show ?thesis by blast
qed

subsection \<open>What a returning \<^verbatim>\<open>automl\<close> has done\<close>















subsection \<open>What a returning \<^verbatim>\<open>compare_models\<close> has done\<close>






lemma create_selected_display:
  "create_selected L names st = Returned ms st' \<Longrightarrow>
   \<exists>grids. display_container st' = display_container st @ grids"
proof (induction names arbitrary: st ms)
  case Nil
  then show ?case by simp
next
  case (Cons i rest)
  from Cons.prems obtain k m st1 ms' where
    cm: "create_model L (Tag k) False None 10 4 True False [] st = Returned m st1"
    and rec: "create_selected L rest st1 = Returned ms' st'"
    by (auto split: option.splits outcome.splits)
  from create_model_returned [OF cm] obtain rows where
    "st1 = store_results (model_results 4 rows) m st"
    by blast
  with Cons.IH [OF rec] show ?case
    by (auto simp: store_results_fields)
qed






subsection \<open>Running the operations on the stand-in library\<close>

lemma toy_simps:
  "construct toy_library tag kwargs = (tag, 1)"
  "fit toy_library m dX dy = m"
  "predict toy_library m dX = map (\<lambda>x. snd m * x) dX"
  "clone toy_library m = m"
  "get_model_name toy_library m = fst m"
  "BaggingRegressor toy_library m n = (''BaggingRegressor'', snd m)"
  "AdaBoostRegressor toy_library m n = (''AdaBoostRegressor'', snd m)"
  "RandomizedSearchCV toy_library tag m g s n dX dy = (fst m, - 1)"
  by (simp_all add: toy_library_def)

lemma split_demo:
  "kf_split toy_library False 10 (replicate 20 1) (replicate 20 (- 1)) =
   Inr demo_splits"
  by code_simp

lemma metrics_off: "compile_metrics [- 1, - 1] [1, 1] =
    Inr \<lparr>MAE = 2, MSE = 4, RMSE = 2, R2 = 0, RMSLE = 0, MAPE = - 2\<rparr>"
  by (simp add: compile_metrics_def check_consistent_length_def mean_absolute_error_def
      mean_squared_error_def r2_score_def rmsle_score_def calculate_mape_def np_mean_def)

lemma metrics_exact: "compile_metrics [- 1, - 1] [- 1, - 1] =
    Inr \<lparr>MAE = 0, MSE = 0, RMSE = 0, R2 = 1, RMSLE = 0, MAPE = 0\<rparr>"
  by (simp add: compile_metrics_def check_consistent_length_def mean_absolute_error_def
      mean_squared_error_def r2_score_def rmsle_score_def calculate_mape_def np_mean_def)

lemma replicate_10: "replicate 10 x = [x, x, x, x, x, x, x, x, x, x]"
  by (simp add: numeral_eq_Suc)

lemma toy_cv_loop:
  assumes "compile_metrics [- 1, - 1] [a, a] = Inr row"
  shows "cv_loop toy_library None (replicate 20 1) (replicate 20 (- 1)) (n, a)
     demo_splits = Inr ((n, a), replicate 10 row)"
  by (simp add: demo_splits_def toy_simps iloc_def inverse_target_def assms replicate_10)

lemma toy_cv:
  assumes "X_train st = replicate 20 1" "y_train st = replicate 20 (- 1)"
    "folds_shuffle_param st = False" "target_inverse_transformer st = None"
    "compile_metrics [- 1, - 1] [a, a] = Inr row"
  shows "cross_validate toy_library st 10 (n, a) = Inr ((n, a), replicate 10 row)"
  by (simp only: cross_validate_def assms(1-4) split_demo sum.case toy_cv_loop [OF assms(5)])

lemma log_holdout_eq:
  "log_holdout L model st =
     (case compile_metrics (inverse_target (target_inverse_transformer st) (y_test st))
             (inverse_target (target_inverse_transformer st) (predict L model (X_test st))) of
        Inl e \<Rightarrow> Raised e st
      | Inr row \<Rightarrow> Returned () st)"
  by (simp add: log_holdout_def predict_model_def run_predict_def pull_def display_pop_def Let_def
      split: sum.splits)

lemma keep_better_eval:
  assumes "create_model_container st = cs @ [model_results r1 rows1, model_results r2 rows2]"
    and "column cd = Some c"
    and "display_container st = ds @ [x]"
  shows "keep_better (Some cd) candidate base_model st =
     Returned (if cd = ''R2''
               then (if np_round r1 (np_mean (map c rows1)) > np_round r2 (np_mean (map c rows2))
                     then candidate else base_model)
               else (if np_round r1 (np_mean (map c rows1)) < np_round r2 (np_mean (map c rows2))
                     then candidate else base_model))
       (st\<lparr>display_container := ds\<rparr>)"
  by (simp add: keep_better_def assms from_end_def nth_append mean_entry_model_results [OF assms(2)]
      display_pop_def)

lemma demo_data_demo: "demo_data demo_experiment"
  by (simp add: demo_data_def demo_experiment_def experiment_on_def numeral_eq_Suc)

lemma demo_data_store: "demo_data (store_results g m st) = demo_data st"
  by (simp add: demo_data_def store_results_def)

lemma demo_data_display: "demo_data (st\<lparr>display_container := d\<rparr>) = demo_data st"
  by (simp add: demo_data_def)

lemma toy_log_holdout:
  assumes "demo_data st" "compile_metrics [- 1, - 1] [a, a] = Inr row"
  shows "log_holdout toy_library (n, a) st = Returned () st"
  using assms by (simp add: log_holdout_eq demo_data_def inverse_target_def toy_simps)

lemma toy_create_model:
  assumes d: "demo_data st" and row: "compile_metrics [- 1, - 1] [a, a] = Inr row"
    and est: "estimator = Obj (n, a) \<or> (a = 1 \<and> estimator = Tag n \<and> n \<in> set available_estimators)"
  shows "create_model toy_library estimator False None 10 4 True system [] st =
     Returned (n, a) (store_results (model_results 4 (replicate 10 row)) (n, a) st)"
proof -
  have sel: "select_estimator toy_library estimator [] = (n, a)"
    using est by (auto simp: select_estimator_def toy_simps)
  have ok: "(case estimator of Tag t \<Rightarrow> t \<notin> set available_estimators | Obj e \<Rightarrow> False) = False"
    using est by auto
  have cv: "cross_validate toy_library st 10 (n, a) = Inr ((n, a), replicate 10 row)"
    using d row by (intro toy_cv) (simp_all add: demo_data_def)
  show ?thesis
    unfolding create_model_def
    by (simp only: ok if_False) 
       (simp add: KFold_def wrap_method_def sel cv toy_simps toy_log_holdout [OF d row] Let_def)
qed

lemma small_fields:
  "X_train small_experiment = [1, 1, 1, 1]"
  "y_train small_experiment = [1 / 6, 1 / 6, - (1 / 6), - (1 / 6)]"
  "folds_shuffle_param small_experiment = False"
  "logging_param small_experiment = False"
  "target_inverse_transformer small_experiment = None"
  by (simp_all add: small_experiment_def experiment_on_def)

lemma split_small:
  "kf_split toy_library False 2 [1, 1, 1, 1] [1 / 6, 1 / 6, - (1 / 6), - (1 / 6)] =
   Inr [([2, 3], [0, 1]), ([0, 1], [2, 3])]"
  by code_simp

lemma metrics_small_off: "compile_metrics [1 / 6, 1 / 6] [- (1 / 6), - (1 / 6)] =
    Inr \<lparr>MAE = 1 / 3, MSE = 1 / 9, RMSE = 1 / 3, R2 = 0, RMSLE = 0, MAPE = 2\<rparr>"
  by (simp add: compile_metrics_def check_consistent_length_def mean_absolute_error_def
      mean_squared_error_def r2_score_def rmsle_score_def calculate_mape_def np_mean_def
      power2_eq_square real_sqrt_divide)

lemma metrics_small_exact: "compile_metrics [- (1 / 6), - (1 / 6)] [- (1 / 6), - (1 / 6)] =
    Inr \<lparr>MAE = 0, MSE = 0, RMSE = 0, R2 = 1, RMSLE = 0, MAPE = 0\<rparr>"
  by (simp add: compile_metrics_def check_consistent_length_def mean_absolute_error_def
      mean_squared_error_def r2_score_def rmsle_score_def calculate_mape_def np_mean_def)

lemma small_cv:
  "cross_validate toy_library small_experiment 2 (''DummyRegressor'', - (1 / 6)) =
   Inr ((''DummyRegressor'', - (1 / 6)),
        [\<lparr>MAE = 1 / 3, MSE = 1 / 9, RMSE = 1 / 3, R2 = 0, RMSLE = 0, MAPE = 2\<rparr>,
         \<lparr>MAE = 0, MSE = 0, RMSE = 0, R2 = 1, RMSLE = 0, MAPE = 0\<rparr>])"
  by (simp add: cross_validate_def small_fields split_small toy_simps iloc_def inverse_target_def
      metrics_small_off metrics_small_exact)

lemma small_grid:
  "model_results 4 [\<lparr>MAE = 1 / 3, MSE = 1 / 9, RMSE = 1 / 3, R2 = 0, RMSLE = 0, MAPE = 2\<rparr>,
                    \<lparr>MAE = 0, MSE = 0, RMSE = 0, R2 = 1, RMSLE = 0, MAPE = 0\<rparr>] = small_score_grid"
  by (simp add: small_score_grid_def model_results_def round_scores_def aggregate_def np_mean_def
      np_std_def np_round_def rint_def upt_rec power2_eq_square real_sqrt_divide)

lemma small_run:
  "create_model toy_library (Obj (''DummyRegressor'', - (1 / 6))) False None 2 4 True True [] small_experiment
   = Returned (''DummyRegressor'', - (1 / 6))
       (store_results small_score_grid (''DummyRegressor'', - (1 / 6)) small_experiment)"
  by (simp add: create_model_def KFold_def wrap_method_def select_estimator_def small_cv small_grid
      small_fields toy_simps)

lemma sqrt_neq: "0 \<le> a \<Longrightarrow> a * a \<noteq> b \<Longrightarrow> a \<noteq> sqrt b"
  by (metis abs_of_nonneg real_sqrt_abs2 real_sqrt_mult_self real_sqrt_eq_iff real_sqrt_mult)

lemma np_mean_replicate: "0 < n \<Longrightarrow> np_mean (replicate n x) = x"
  by (simp add: np_mean_def sum_list_replicate)

lemma np_round_4_int: "np_round 4 (of_int k) = of_int k"
proof -
  have f: "\<lfloor>real_of_int k * 10000\<rfloor> = k * 10000"
    by (metis floor_of_int of_int_mult of_int_numeral)
  have "rint (of_int k * 10 ^ nat 4) = k * 10000"
    by (simp add: rint_def Let_def f)
  then show ?thesis by (simp add: np_round_def)
qed

lemma np_round_4_simps:
  "np_round 4 0 = 0" "np_round 4 1 = 1" "np_round 4 2 = 2" "np_round 4 4 = 4" "np_round 4 (- 2) = - 2"
  using np_round_4_int [of 0] np_round_4_int [of 1] np_round_4_int [of 2] np_round_4_int [of 4]
    np_round_4_int [of "- 2"] by simp_all

lemma demo_fields:
  "X_train demo_experiment = replicate 20 1"
  "y_train demo_experiment = replicate 20 (- 1)"
  "folds_shuffle_param demo_experiment = False"
  "logging_param demo_experiment = True"
  "target_inverse_transformer demo_experiment = None"
  "create_model_container demo_experiment = []"
  "master_model_container demo_experiment = []"
  "display_container demo_experiment = []"
  using demo_data_demo by (simp_all add: demo_data_def) (simp_all add: demo_experiment_def experiment_on_def)

lemma toy_tune_run:
  "tune_model toy_library (Obj (''Ridge'', 1)) 10 4 10 None ''MAE'' True demo_experiment
   = Returned (''Ridge'', - 1)
       (demo_experiment
          \<lparr>create_model_container := [model_results 4 (replicate 10 exact_scores), model_results 4 (replicate 10 off_scores)],
           display_container := [ScoreGrid (model_results 4 (replicate 10 exact_scores))],
           master_model_container := [(''Ridge'', - 1), (''ridge'', 1)]\<rparr>)"
proof -
  define st1 where "st1 = store_results (model_results 4 (replicate 10 exact_scores)) (''Ridge'', - 1) demo_experiment"
  have d1: "demo_data st1"
    by (simp add: st1_def demo_data_store demo_data_demo)
  have cm: "create_model toy_library (Tag ''ridge'') False None 10 4 True True [] st1
      = Returned (''ridge'', 1) (store_results (model_results 4 (replicate 10 off_scores)) (''ridge'', 1) st1)"
    by (rule toy_create_model [OF d1 metrics_off [folded off_scores_def]]) (simp add: available_estimators_def)
  define st2 where "st2 = store_results (model_results 4 (replicate 10 off_scores)) (''ridge'', 1) st1"
  have kb: "keep_better (Some ''MAE'') (''Ridge'', - 1) (''ridge'', 1) st2
      = Returned (''Ridge'', - 1) (st2\<lparr>display_container := [ScoreGrid (model_results 4 (replicate 10 exact_scores))]\<rparr>)"
  proof -
    have "keep_better (Some ''MAE'') (''Ridge'', - 1) (''ridge'', 1) st2
      = Returned (if ''MAE'' = ''R2''
               then (if np_round 4 (np_mean (map MAE (replicate 10 exact_scores))) > np_round 4 (np_mean (map MAE (replicate 10 off_scores)))
                     then (''Ridge'', - 1) else (''ridge'', 1))
               else (if np_round 4 (np_mean (map MAE (replicate 10 exact_scores))) < np_round 4 (np_mean (map MAE (replicate 10 off_scores)))
                     then (''Ridge'', - 1) else (''ridge'', 1)))
       (st2\<lparr>display_container := [ScoreGrid (model_results 4 (replicate 10 exact_scores))]\<rparr>)"
      by (rule keep_better_eval [where cs = "[]"])
         (simp_all add: st2_def st1_def store_results_fields demo_fields column_def)
    then show ?thesis
      by (simp add: exact_scores_def off_scores_def np_mean_replicate np_round_4_simps)
  qed
  have lg: "log_holdout toy_library (''Ridge'', - 1) (st2\<lparr>display_container := [ScoreGrid (model_results 4 (replicate 10 exact_scores))]\<rparr>)
      = Returned () (st2\<lparr>display_container := [ScoreGrid (model_results 4 (replicate 10 exact_scores))]\<rparr>)"
    by (rule toy_log_holdout [OF _ metrics_exact])
       (simp add: demo_data_display st2_def demo_data_store d1)
  have cv: "cv_loop toy_library None (replicate 20 1) (replicate 20 (- 1)) (''Ridge'', - 1) demo_splits
     = Inr ((''Ridge'', - 1), replicate 10 exact_scores)"
    by (rule toy_cv_loop [OF metrics_exact [folded exact_scores_def]])
  have final: "st2\<lparr>display_container := [ScoreGrid (model_results 4 (replicate 10 exact_scores))]\<rparr>
     = demo_experiment
          \<lparr>create_model_container := [model_results 4 (replicate 10 exact_scores), model_results 4 (replicate 10 off_scores)],
           display_container := [ScoreGrid (model_results 4 (replicate 10 exact_scores))],
           master_model_container := [(''Ridge'', - 1), (''ridge'', 1)]\<rparr>"
    by (simp add: st2_def st1_def store_results_def demo_fields)
  have tag: "map_of model_dict (if contains ''catboost'' (get_model_name toy_library (''Ridge'', 1)) then ''CatBoostRegressor''
                            else get_model_name toy_library (''Ridge'', 1)) = Some ''ridge''"
    by (simp add: toy_simps model_dict_def)
  have opt: "''MAE'' \<in> set allowed_optimize"
    by (simp add: allowed_optimize_def)
  have kfo: "KFold 10 = Inr 10"
    by (simp add: KFold_def)
  have spl: "kf_split toy_library (folds_shuffle_param demo_experiment) 10 (X_train demo_experiment)
       (y_train demo_experiment) = Inr demo_splits"
    by (simp only: demo_fields split_demo)
  have cvf: "cv_loop toy_library (target_inverse_transformer demo_experiment) (X_train demo_experiment)
       (y_train demo_experiment)
       (RandomizedSearchCV toy_library ''ridge'' (''Ridge'', 1) None (scoring_of ''MAE'') 10
          (X_train demo_experiment) (y_train demo_experiment)) demo_splits
     = Inr ((''Ridge'', - 1), replicate 10 exact_scores)"
    by (simp only: demo_fields toy_simps fst_conv cv)
  have st1: "st1 = store_results (model_results 4 (replicate 10 exact_scores))
       (fit toy_library (''Ridge'', - 1) (X_train demo_experiment) (y_train demo_experiment)) demo_experiment"
    by (simp only: st1_def toy_simps)
  have "tune_model toy_library (Obj (''Ridge'', 1)) 10 4 10 None ''MAE'' True demo_experiment
    = Returned (''Ridge'', - 1) (st2\<lparr>display_container := [ScoreGrid (model_results 4 (replicate 10 exact_scores))]\<rparr>)"
    by (subst tune_model_eval [OF opt kfo spl tag cvf refl st1])
       (simp add: toy_simps cm st2_def [symmetric] kb lg)
  then show ?thesis by (simp only: final)
qed

lemma toy_ensemble_run:
  "ensemble_model toy_library (''Ridge'', 1) ''Bagging'' 10 10 4 True ''R2'' demo_experiment
   = Returned (''Ridge'', 1)
       (demo_experiment
          \<lparr>create_model_container := [model_results 4 (replicate 10 off_scores), model_results 4 (replicate 10 off_scores)],
           display_container := [ScoreGrid (model_results 4 (replicate 10 off_scores))],
           master_model_container := [(''BaggingRegressor'', 1), (''Ridge'', 1)]\<rparr>)"
proof -
  define st1 where "st1 = store_results (model_results 4 (replicate 10 off_scores)) (''BaggingRegressor'', 1) demo_experiment"
  have d1: "demo_data st1"
    by (simp add: st1_def demo_data_store demo_data_demo)
  have cm: "create_model toy_library (Obj (''Ridge'', 1)) False None 10 4 True True [] st1
      = Returned (''Ridge'', 1) (store_results (model_results 4 (replicate 10 off_scores)) (''Ridge'', 1) st1)"
    by (rule toy_create_model [OF d1 metrics_off [folded off_scores_def]]) simp
  define st2 where "st2 = store_results (model_results 4 (replicate 10 off_scores)) (''Ridge'', 1) st1"
  have kb: "keep_better (Some ''R2'') (''BaggingRegressor'', 1) (''Ridge'', 1) st2
      = Returned (''Ridge'', 1) (st2\<lparr>display_container := [ScoreGrid (model_results 4 (replicate 10 off_scores))]\<rparr>)"
  proof -
    have "keep_better (Some ''R2'') (''BaggingRegressor'', 1) (''Ridge'', 1) st2
      = Returned (if ''R2'' = ''R2''
               then (if np_round 4 (np_mean (map R2 (replicate 10 off_scores))) > np_round 4 (np_mean (map R2 (replicate 10 off_scores)))
                     then (''BaggingRegressor'', 1) else (''Ridge'', 1))
               else (if np_round 4 (np_mean (map R2 (replicate 10 off_scores))) < np_round 4 (np_mean (map R2 (replicate 10 off_scores)))
                     then (''BaggingRegressor'', 1) else (''Ridge'', 1)))
       (st2\<lparr>display_container := [ScoreGrid (model_results 4 (replicate 10 off_scores))]\<rparr>)"
      by (rule keep_better_eval [where cs = "[]"])
         (simp_all add: st2_def st1_def store_results_fields demo_fields column_def)
    then show ?thesis by simp
  qed
  have lg: "log_holdout toy_library (''Ridge'', 1) (st2\<lparr>display_container := [ScoreGrid (model_results 4 (replicate 10 off_scores))]\<rparr>)
      = Returned () (st2\<lparr>display_container := [ScoreGrid (model_results 4 (replicate 10 off_scores))]\<rparr>)"
    by (rule toy_log_holdout [OF _ metrics_off])
       (simp add: demo_data_display st2_def demo_data_store d1)
  have final: "st2\<lparr>display_container := [ScoreGrid (model_results 4 (replicate 10 off_scores))]\<rparr>
     = demo_experiment
          \<lparr>create_model_container := [model_results 4 (replicate 10 off_scores), model_results 4 (replicate 10 off_scores)],
           display_container := [ScoreGrid (model_results 4 (replicate 10 off_scores))],
           master_model_container := [(''BaggingRegressor'', 1), (''Ridge'', 1)]\<rparr>"
    by (simp add: st2_def st1_def store_results_def demo_fields)
  have meth: "''Bagging'' \<in> set available_method"
    by (simp add: available_method_def)
  have kfo: "KFold 10 = Inr 10"
    by (simp add: KFold_def)
  have cvf: "cross_validate toy_library demo_experiment 10
       (if ''Bagging'' = ''Bagging'' then BaggingRegressor toy_library (''Ridge'', 1) 10
        else AdaBoostRegressor toy_library (''Ridge'', 1) 10)
     = Inr ((''BaggingRegressor'', 1), replicate 10 off_scores)"
    using toy_cv [OF demo_fields(1,2,3,5) metrics_off [folded off_scores_def], of "''BaggingRegressor''"]
    by (simp add: toy_simps)
  have st1: "st1 = store_results (model_results 4 (replicate 10 off_scores))
       (fit toy_library (''BaggingRegressor'', 1) (X_train demo_experiment) (y_train demo_experiment)) demo_experiment"
    by (simp only: st1_def toy_simps)
  have "ensemble_model toy_library (''Ridge'', 1) ''Bagging'' 10 10 4 True ''R2'' demo_experiment
    = Returned (''Ridge'', 1) (st2\<lparr>display_container := [ScoreGrid (model_results 4 (replicate 10 off_scores))]\<rparr>)"
    by (subst ensemble_model_eval [OF meth kfo cvf refl st1])
       (simp add: toy_simps cm st2_def [symmetric] kb lg compare_dimension_of_def)
  then show ?thesis by (simp only: final)
qed

lemma toy_fit_only_run:
  "create_model toy_library (Tag ''lr'') False None 10 4 False True [] demo_experiment
   = Returned (''lr'', 1) demo_experiment"
  by (simp add: create_model_def available_estimators_def KFold_def wrap_method_def
      select_estimator_def toy_simps)









section \<open>The claims\<close>

text \<open>
  C1, as amended. Whenever \<^verbatim>\<open>create_model\<close> returns with cross-validation enabled, the score
  grid it appended has one row per fold, and there are unrounded fold scores with
  RMSE = sqrt(MSE) of which the grid holds the rounded values: fold row \<open>i\<close> holds the
  rounded MSE of fold \<open>i\<close> and the rounded square root of that unrounded MSE. The Mean
  row holds the rounded mean of the fold MSEs and, as its RMSE, the rounded mean of the
  fold RMSEs (the mean of the square roots, not the square root of the mean).
\<close>

theorem create_model_rmse:
  assumes "create_model L estimator ensemble method fold_n rnd True system kwargs st = Returned m st'"
  shows "\<exists>rows. length rows = nat fold_n
     \<and> create_model_container st' = create_model_container st @ [model_results rnd rows]
     \<and> (\<forall>i < length rows.
           RMSE (rows ! i) = sqrt (MSE (rows ! i))
         \<and> fst (model_results rnd rows ! i) = Fold i
         \<and> MSE (snd (model_results rnd rows ! i)) = np_round rnd (MSE (rows ! i))
         \<and> RMSE (snd (model_results rnd rows ! i)) = np_round rnd (sqrt (MSE (rows ! i))))
     \<and> fst (model_results rnd rows ! length rows) = Mean
     \<and> MSE (snd (model_results rnd rows ! length rows)) = np_round rnd (np_mean (map MSE rows))
     \<and> RMSE (snd (model_results rnd rows ! length rows))
         = np_round rnd (np_mean (map (\<lambda>r. sqrt (MSE r)) rows))"
proof -
  from create_model_returned [OF assms] obtain model1 rows where
    cv: "cross_validate L st (nat fold_n) (wrap_method L method (select_estimator L estimator kwargs)) = Inr (model1, rows)"
    and st': "st' = store_results (model_results rnd rows) m st"
    by blast
  have rm: "\<And>r. r \<in> set rows \<Longrightarrow> RMSE r = sqrt (MSE r)"
    by (rule cross_validate_rmse [OF cv])
  have eq: "map RMSE rows = map (\<lambda>r. sqrt (MSE r)) rows"
    by (rule map_cong [OF refl]) (rule rm)
  have mean: "RMSE (snd (model_results rnd rows ! length rows))
         = np_round rnd (np_mean (map (\<lambda>r. sqrt (MSE r)) rows))"
    by (simp add: nth_model_results_mean round_scores_def aggregate_def eq)
  have folds: "\<forall>i < length rows.
           RMSE (rows ! i) = sqrt (MSE (rows ! i))
         \<and> fst (model_results rnd rows ! i) = Fold i
         \<and> MSE (snd (model_results rnd rows ! i)) = np_round rnd (MSE (rows ! i))
         \<and> RMSE (snd (model_results rnd rows ! i)) = np_round rnd (sqrt (MSE (rows ! i)))"
    using rm by (simp add: nth_model_results_fold round_scores_def)
  have m1: "fst (model_results rnd rows ! length rows) = Mean"
    by (simp add: nth_model_results_mean)
  have m2: "MSE (snd (model_results rnd rows ! length rows)) = np_round rnd (np_mean (map MSE rows))"
    by (simp add: nth_model_results_mean round_scores_def aggregate_def)
  have cmc: "create_model_container st' = create_model_container st @ [model_results rnd rows]"
    by (simp add: st' store_results_fields)
  show ?thesis
    using cross_validate_length [OF cv] cmc folds m1 m2 mean by blast
qed

text \<open>
  The theorem at work on the first experiment, two folds and the default four decimals.
\<close>

theorem create_model_rmse_witness:
  "create_model toy_library (Obj (''DummyRegressor'', - (1 / 6))) False None 2 4 True True [] small_experiment
   = Returned (''DummyRegressor'', - (1 / 6))
       (store_results small_score_grid (''DummyRegressor'', - (1 / 6)) small_experiment)
   \<and> (\<exists>rows. length rows = nat 2
     \<and> create_model_container (store_results small_score_grid (''DummyRegressor'', - (1 / 6)) small_experiment) = create_model_container small_experiment @ [model_results 4 rows]
     \<and> (\<forall>i < length rows.
           RMSE (rows ! i) = sqrt (MSE (rows ! i))
         \<and> fst (model_results 4 rows ! i) = Fold i
         \<and> MSE (snd (model_results 4 rows ! i)) = np_round 4 (MSE (rows ! i))
         \<and> RMSE (snd (model_results 4 rows ! i)) = np_round 4 (sqrt (MSE (rows ! i))))
     \<and> fst (model_results 4 rows ! length rows) = Mean
     \<and> MSE (snd (model_results 4 rows ! length rows)) = np_round 4 (np_mean (map MSE rows))
     \<and> RMSE (snd (model_results 4 rows ! length rows))
         = np_round 4 (np_mean (map (\<lambda>r. sqrt (MSE r)) rows)))"
  by (rule conjI [OF small_run create_model_rmse [OF small_run]])

text \<open>
  C1 as it was stated fails: in the grid of that run neither the first fold row nor the
  Mean row has RMSE = sqrt(MSE). Fold 0 stores MSE 0.1111 and RMSE 0.3333, the Mean row
  MSE 0.0556 and RMSE 0.1667.
\<close>

theorem create_model_rmse_counterexample:
  "create_model toy_library (Obj (''DummyRegressor'', - (1 / 6))) False None 2 4 True True [] small_experiment
   = Returned (''DummyRegressor'', - (1 / 6))
       (store_results small_score_grid (''DummyRegressor'', - (1 / 6)) small_experiment)
   \<and> fst (small_score_grid ! 0) = Fold 0
   \<and> RMSE (snd (small_score_grid ! 0)) \<noteq> sqrt (MSE (snd (small_score_grid ! 0)))
   \<and> fst (small_score_grid ! 2) = Mean
   \<and> RMSE (snd (small_score_grid ! 2)) \<noteq> sqrt (MSE (snd (small_score_grid ! 2)))"
proof -
  have "(3333 / 10000 :: real) \<noteq> sqrt (1111 / 10000)"
    by (rule sqrt_neq) simp_all
  moreover have "(1667 / 10000 :: real) \<noteq> sqrt (556 / 10000)"
    by (rule sqrt_neq) simp_all
  ultimately show ?thesis
    by (simp add: small_run small_score_grid_def)
qed

text \<open>
  C2. Whenever \<^verbatim>\<open>create_model\<close> returns with cross-validation enabled, the fold count
  \<open>k\<close> is at least 2 and the score grid it appended to the score-grid and display
  containers has \<open>k + 2\<close> rows, labelled \<open>0, ..., k - 1\<close>, \<^verbatim>\<open>'Mean'\<close>, \<^verbatim>\<open>'SD'\<close> in this
  order; the MAE of the Mean row differs from the arithmetic mean of the MAE entries of
  the \<open>k\<close> fold rows by at most one unit of the last decimal kept.
\<close>

theorem create_model_grid_shape:
  assumes "create_model L estimator ensemble method fold_n rnd True system kwargs st = Returned m st'"
  shows "\<exists>grid. create_model_container st' = create_model_container st @ [grid]
     \<and> display_container st' = display_container st @ [ScoreGrid grid]
     \<and> 2 \<le> fold_n
     \<and> length grid = nat fold_n + 2
     \<and> map fst grid = map Fold [0..<nat fold_n] @ [Mean, SD]
     \<and> \<bar>MAE (snd (grid ! nat fold_n)) - np_mean (map (\<lambda>r. MAE (snd r)) (take (nat fold_n) grid))\<bar> \<le> ulp rnd"
proof -
  from create_model_returned [OF assms] obtain model1 rows where
    k: "2 \<le> fold_n"
    and cv: "cross_validate L st (nat fold_n) (wrap_method L method (select_estimator L estimator kwargs)) = Inr (model1, rows)"
    and st': "st' = store_results (model_results rnd rows) m st"
    by blast
  have len: "length rows = nat fold_n"
    by (rule cross_validate_length [OF cv])
  with k have ne: "map MAE rows \<noteq> []" by auto
  have folds: "map (\<lambda>r. MAE (snd r)) (take (length rows) (model_results rnd rows))
      = map (np_round rnd) (map MAE rows)"
    by (simp add: take_model_results round_scores_def case_prod_unfold comp_def
        map_after_zip [where f = "\<lambda>r. np_round rnd (MAE r)"])
  have mean: "MAE (snd (model_results rnd rows ! length rows)) = np_round rnd (np_mean (map MAE rows))"
    by (simp add: nth_model_results_mean round_scores_def aggregate_def)
  have close: "\<bar>MAE (snd (model_results rnd rows ! length rows))
       - np_mean (map (\<lambda>r. MAE (snd r)) (take (length rows) (model_results rnd rows)))\<bar> \<le> ulp rnd"
    unfolding folds mean by (rule rounded_mean_close [OF ne])
  have "create_model_container st' = create_model_container st @ [model_results rnd rows]"
    "display_container st' = display_container st @ [ScoreGrid (model_results rnd rows)]"
    "length (model_results rnd rows) = nat fold_n + 2"
    "map fst (model_results rnd rows) = map Fold [0..<nat fold_n] @ [Mean, SD]"
    using len by (simp_all add: st' store_results_fields length_model_results labels_model_results)
  with k close [unfolded len] show ?thesis by blast
qed

text \<open>The theorem at work on the first experiment, with two folds.\<close>

theorem create_model_grid_shape_witness:
  "create_model toy_library (Obj (''DummyRegressor'', - (1 / 6))) False None 2 4 True True [] small_experiment
   = Returned (''DummyRegressor'', - (1 / 6))
       (store_results small_score_grid (''DummyRegressor'', - (1 / 6)) small_experiment)
   \<and> (\<exists>grid. create_model_container (store_results small_score_grid (''DummyRegressor'', - (1 / 6)) small_experiment) = create_model_container small_experiment @ [grid]
     \<and> display_container (store_results small_score_grid (''DummyRegressor'', - (1 / 6)) small_experiment) = display_container small_experiment @ [ScoreGrid grid]
     \<and> (2::int) \<le> 2
     \<and> length grid = nat 2 + 2
     \<and> map fst grid = map Fold [0..<nat 2] @ [Mean, SD]
     \<and> \<bar>MAE (snd (grid ! nat 2)) - np_mean (map (\<lambda>r. MAE (snd r)) (take (nat 2) grid))\<bar> \<le> ulp 4)"
  by (rule conjI [OF small_run create_model_grid_shape [OF small_run]])

text \<open>
  C9. A string ID outside the catalog makes \<^verbatim>\<open>create_model\<close> exit with the
  invalid-estimator message, whatever the other arguments are, and the experiment with
  its three containers is as it was.
\<close>

theorem create_model_unknown_tag:
  assumes "t \<notin> set available_estimators"
  shows "create_model L (Tag t) ensemble method fold_n rnd cross_validation system kwargs st
     = Raised estimator_not_available st"
  using assms by (simp add: create_model_def)

theorem create_model_unknown_tag_witness:
  "''linear'' \<notin> set available_estimators
   \<and> create_model toy_library (Tag ''linear'') False None 10 4 True True [] demo_experiment
     = Raised estimator_not_available demo_experiment"
proof -
  have h: "''linear'' \<notin> set available_estimators"
    by (simp add: available_estimators_def)
  show ?thesis
    using h create_model_unknown_tag [OF h] by simp
qed



text \<open>
  C6, as amended. A returning \<^verbatim>\<open>create_model\<close> with cross-validation enabled has changed
  the experiment by exactly three appends: its score grid to the score-grid and display
  containers and its model to the model container; with \<^verbatim>\<open>cross_validation=False\<close> it
  has changed nothing. A returning \<^verbatim>\<open>tune_model\<close> or \<^verbatim>\<open>ensemble_model\<close> without
  \<^verbatim>\<open>choose_better\<close> has made the same three appends for the model it returns; with
  \<^verbatim>\<open>choose_better\<close> the candidate's score grid and model are followed by the base
  model's in the score-grid and model containers, the display container ends with the
  candidate's grid, and the returned model is one of the two.
\<close>

theorem training_appends_results:
  "(create_model L estimator ensemble method fold_n rnd cross_validation system kwargs st = Returned m st' \<longrightarrow>
      (if cross_validation then (\<exists>rows. st' = store_results (model_results rnd rows) m st) else st' = st))
   \<and> (tune_model L estimator_t fold_t rnd_t n_iter custom_grid optimize_t choose_t st_t = Returned m_t st_t' \<longrightarrow>
      (\<exists>rows candidate.
          if choose_t
          then (\<exists>rows_b base.
                  st_t' = st_t\<lparr>create_model_container := create_model_container st_t @ [model_results rnd_t rows, model_results 4 rows_b],
                            display_container := display_container st_t @ [ScoreGrid (model_results rnd_t rows)],
                            master_model_container := master_model_container st_t @ [candidate, base]\<rparr>
                \<and> (m_t = candidate \<or> m_t = base))
          else m_t = candidate \<and> st_t' = store_results (model_results rnd_t rows) candidate st_t))
   \<and> (ensemble_model L estimator_e method_e fold_e n_estimators rnd_e choose_e optimize_e st_e = Returned m_e st_e' \<longrightarrow>
      (\<exists>rows candidate.
          if choose_e
          then (\<exists>rows_b base.
                  st_e' = st_e\<lparr>create_model_container := create_model_container st_e @ [model_results rnd_e rows, model_results 4 rows_b],
                            display_container := display_container st_e @ [ScoreGrid (model_results rnd_e rows)],
                            master_model_container := master_model_container st_e @ [candidate, base]\<rparr>
                \<and> (m_e = candidate \<or> m_e = base))
          else m_e = candidate \<and> st_e' = store_results (model_results rnd_e rows) candidate st_e))"
proof (intro conjI impI)
  assume a: "create_model L estimator ensemble method fold_n rnd cross_validation system kwargs st = Returned m st'"
  show "if cross_validation then (\<exists>rows. st' = store_results (model_results rnd rows) m st) else st' = st"
  proof (cases cross_validation)
    case True
    with a have "create_model L estimator ensemble method fold_n rnd True system kwargs st = Returned m st'"
      by simp
    from create_model_returned [OF this] True show ?thesis by auto
  next
    case False
    with a have "create_model L estimator ensemble method fold_n rnd False system kwargs st = Returned m st'"
      by simp
    from create_model_no_cv [OF this] False show ?thesis by simp
  qed
next
  assume a: "tune_model L estimator_t fold_t rnd_t n_iter custom_grid optimize_t choose_t st_t = Returned m_t st_t'"
  show "\<exists>rows candidate.
          if choose_t
          then (\<exists>rows_b base.
                  st_t' = st_t\<lparr>create_model_container := create_model_container st_t @ [model_results rnd_t rows, model_results 4 rows_b],
                            display_container := display_container st_t @ [ScoreGrid (model_results rnd_t rows)],
                            master_model_container := master_model_container st_t @ [candidate, base]\<rparr>
                \<and> (m_t = candidate \<or> m_t = base))
          else m_t = candidate \<and> st_t' = store_results (model_results rnd_t rows) candidate st_t"
  proof (cases choose_t)
    case True
    with a have "tune_model L estimator_t fold_t rnd_t n_iter custom_grid optimize_t True st_t = Returned m_t st_t'"
      by simp
    from tune_model_choose_better [OF this] obtain c tuned base rows_t rows_b where
      "st_t' = st_t\<lparr>create_model_container := create_model_container st_t @ [model_results rnd_t rows_t, model_results 4 rows_b],
                  display_container := display_container st_t @ [ScoreGrid (model_results rnd_t rows_t)],
                  master_model_container := master_model_container st_t @ [tuned, base]\<rparr>"
      and "m_t = tuned \<or> m_t = base"
      by (auto split: if_splits)
    with True show ?thesis by auto
  next
    case False
    from tune_model_returned [OF a] False obtain rows tuned where
      "m_t = tuned" "st_t' = store_results (model_results rnd_t rows) tuned st_t"
      by auto
    with False show ?thesis by auto
  qed
next
  assume a: "ensemble_model L estimator_e method_e fold_e n_estimators rnd_e choose_e optimize_e st_e = Returned m_e st_e'"
  show "\<exists>rows candidate.
          if choose_e
          then (\<exists>rows_b base.
                  st_e' = st_e\<lparr>create_model_container := create_model_container st_e @ [model_results rnd_e rows, model_results 4 rows_b],
                            display_container := display_container st_e @ [ScoreGrid (model_results rnd_e rows)],
                            master_model_container := master_model_container st_e @ [candidate, base]\<rparr>
                \<and> (m_e = candidate \<or> m_e = base))
          else m_e = candidate \<and> st_e' = store_results (model_results rnd_e rows) candidate st_e"
  proof (cases choose_e)
    case True
    with a have "ensemble_model L estimator_e method_e fold_e n_estimators rnd_e True optimize_e st_e = Returned m_e st_e'"
      by simp
    from ensemble_model_choose_better [OF this] obtain c ensembled base rows_t rows_b where
      "st_e' = st_e\<lparr>create_model_container := create_model_container st_e @ [model_results rnd_e rows_t, model_results 4 rows_b],
                  display_container := display_container st_e @ [ScoreGrid (model_results rnd_e rows_t)],
                  master_model_container := master_model_container st_e @ [ensembled, base]\<rparr>"
      and "m_e = ensembled \<or> m_e = base"
      by (auto split: if_splits)
    with True show ?thesis by auto
  next
    case False
    from ensemble_model_returned [OF a] False obtain rows ensembled where
      "m_e = ensembled" "st_e' = store_results (model_results rnd_e rows) ensembled st_e"
      by auto
    with False show ?thesis by auto
  qed
qed

text \<open>The theorem at work on one returning call of each of the three functions.\<close>

theorem training_appends_results_witness:
  "create_model toy_library (Obj (''DummyRegressor'', - (1 / 6))) False None 2 4 True True [] small_experiment
     = Returned (''DummyRegressor'', - (1 / 6)) (store_results small_score_grid (''DummyRegressor'', - (1 / 6)) small_experiment)
   \<and> (if True then (\<exists>rows. (store_results small_score_grid (''DummyRegressor'', - (1 / 6)) small_experiment) = store_results (model_results 4 rows) (''DummyRegressor'', - (1 / 6)) small_experiment)
       else (store_results small_score_grid (''DummyRegressor'', - (1 / 6)) small_experiment) = small_experiment)
   \<and> tune_model toy_library (Obj (''Ridge'', 1)) 10 4 10 None ''MAE'' True demo_experiment
     = Returned (''Ridge'', - 1) (demo_experiment
          \<lparr>create_model_container := [model_results 4 (replicate 10 exact_scores), model_results 4 (replicate 10 off_scores)],
           display_container := [ScoreGrid (model_results 4 (replicate 10 exact_scores))],
           master_model_container := [(''Ridge'', - 1), (''ridge'', 1)]\<rparr>)
   \<and> (\<exists>rows candidate.
          if True
          then (\<exists>rows_b base.
                  (demo_experiment
          \<lparr>create_model_container := [model_results 4 (replicate 10 exact_scores), model_results 4 (replicate 10 off_scores)],
           display_container := [ScoreGrid (model_results 4 (replicate 10 exact_scores))],
           master_model_container := [(''Ridge'', - 1), (''ridge'', 1)]\<rparr>) = demo_experiment\<lparr>create_model_container := create_model_container demo_experiment @ [model_results 4 rows, model_results 4 rows_b],
                            display_container := display_container demo_experiment @ [ScoreGrid (model_results 4 rows)],
                            master_model_container := master_model_container demo_experiment @ [candidate, base]\<rparr>
                \<and> ((''Ridge'', - 1) = candidate \<or> (''Ridge'', - 1) = base))
          else (''Ridge'', - 1) = candidate \<and> (demo_experiment
          \<lparr>create_model_container := [model_results 4 (replicate 10 exact_scores), model_results 4 (replicate 10 off_scores)],
           display_container := [ScoreGrid (model_results 4 (replicate 10 exact_scores))],
           master_model_container := [(''Ridge'', - 1), (''ridge'', 1)]\<rparr>) = store_results (model_results 4 rows) candidate demo_experiment)
   \<and> ensemble_model toy_library (''Ridge'', 1) ''Bagging'' 10 10 4 True ''R2'' demo_experiment
     = Returned (''Ridge'', 1) (demo_experiment
          \<lparr>create_model_container := [model_results 4 (replicate 10 off_scores), model_results 4 (replicate 10 off_scores)],
           display_container := [ScoreGrid (model_results 4 (replicate 10 off_scores))],
           master_model_container := [(''BaggingRegressor'', 1), (''Ridge'', 1)]\<rparr>)
   \<and> (\<exists>rows candidate.
          if True
          then (\<exists>rows_b base.
                  (demo_experiment
          \<lparr>create_model_container := [model_results 4 (replicate 10 off_scores), model_results 4 (replicate 10 off_scores)],
           display_container := [ScoreGrid (model_results 4 (replicate 10 off_scores))],
           master_model_container := [(''BaggingRegressor'', 1), (''Ridge'', 1)]\<rparr>) = demo_experiment\<lparr>create_model_container := create_model_container demo_experiment @ [model_results 4 rows, model_results 4 rows_b],
                            display_container := display_container demo_experiment @ [ScoreGrid (model_results 4 rows)],
                            master_model_container := master_model_container demo_experiment @ [candidate, base]\<rparr>
                \<and> ((''Ridge'', 1) = candidate \<or> (''Ridge'', 1) = base))
          else (''Ridge'', 1) = candidate \<and> (demo_experiment
          \<lparr>create_model_container := [model_results 4 (replicate 10 off_scores), model_results 4 (replicate 10 off_scores)],
           display_container := [ScoreGrid (model_results 4 (replicate 10 off_scores))],
           master_model_container := [(''BaggingRegressor'', 1), (''Ridge'', 1)]\<rparr>) = store_results (model_results 4 rows) candidate demo_experiment)"
  using training_appends_results [of toy_library "Obj (''DummyRegressor'', - (1 / 6))" False None 2 4 True True "[]"
      small_experiment "(''DummyRegressor'', - (1 / 6))" "(store_results small_score_grid (''DummyRegressor'', - (1 / 6)) small_experiment)"
      "Obj (''Ridge'', 1)" 10 4 10 None "''MAE''" True demo_experiment "(''Ridge'', - 1)" "(demo_experiment
          \<lparr>create_model_container := [model_results 4 (replicate 10 exact_scores), model_results 4 (replicate 10 off_scores)],
           display_container := [ScoreGrid (model_results 4 (replicate 10 exact_scores))],
           master_model_container := [(''Ridge'', - 1), (''ridge'', 1)]\<rparr>)"
      "(''Ridge'', 1)" "''Bagging''" 10 10 4 True "''R2''" demo_experiment "(''Ridge'', 1)" "(demo_experiment
          \<lparr>create_model_container := [model_results 4 (replicate 10 off_scores), model_results 4 (replicate 10 off_scores)],
           display_container := [ScoreGrid (model_results 4 (replicate 10 off_scores))],
           master_model_container := [(''BaggingRegressor'', 1), (''Ridge'', 1)]\<rparr>)"]
    small_run toy_tune_run toy_ensemble_run
  by blast

text \<open>
  C6 as it was stated fails twice on the second experiment. \<^verbatim>\<open>create_model('lr',
  cross_validation=False)\<close> returns a model and leaves the experiment as it was. And
  \<^verbatim>\<open>tune_model\<close> with \<^verbatim>\<open>choose_better=True\<close> returns the tuned model, whose Mean MAE is 0,
  while the last entries of the model and score-grid containers are the base model and
  its grid, with Mean MAE 2.
\<close>

theorem training_appends_results_counterexample:
  "create_model toy_library (Tag ''lr'') False None 10 4 False True [] demo_experiment
     = Returned (''lr'', 1) demo_experiment
   \<and> tune_model toy_library (Obj (''Ridge'', 1)) 10 4 10 None ''MAE'' True demo_experiment
     = Returned (''Ridge'', - 1) (demo_experiment
          \<lparr>create_model_container := [model_results 4 (replicate 10 exact_scores), model_results 4 (replicate 10 off_scores)],
           display_container := [ScoreGrid (model_results 4 (replicate 10 exact_scores))],
           master_model_container := [(''Ridge'', - 1), (''ridge'', 1)]\<rparr>)
   \<and> last (master_model_container (demo_experiment
          \<lparr>create_model_container := [model_results 4 (replicate 10 exact_scores), model_results 4 (replicate 10 off_scores)],
           display_container := [ScoreGrid (model_results 4 (replicate 10 exact_scores))],
           master_model_container := [(''Ridge'', - 1), (''ridge'', 1)]\<rparr>)) \<noteq> (''Ridge'', - 1)
   \<and> last (create_model_container (demo_experiment
          \<lparr>create_model_container := [model_results 4 (replicate 10 exact_scores), model_results 4 (replicate 10 off_scores)],
           display_container := [ScoreGrid (model_results 4 (replicate 10 exact_scores))],
           master_model_container := [(''Ridge'', - 1), (''ridge'', 1)]\<rparr>)) = model_results 4 (replicate 10 off_scores)
   \<and> mean_entry (model_results 4 (replicate 10 off_scores)) ''MAE'' = Inr 2
   \<and> mean_entry (model_results 4 (replicate 10 exact_scores)) ''MAE'' = Inr 0"
proof -
  have c: "column ''MAE'' = Some MAE"
    by (simp add: column_def)
  show ?thesis
    by (simp add: toy_fit_only_run toy_tune_run mean_entry_model_results [OF c] off_scores_def
        exact_scores_def np_mean_replicate np_round_4_simps)
qed



text \<open>
  C8, as amended. \<^verbatim>\<open>load_model(name)\<close> right after \<^verbatim>\<open>save_model(m, name)\<close> yields a copy
  of what was dumped: the preprocessing pipeline with \<open>m\<close> as its last step, or \<open>m\<close>
  alone under \<^verbatim>\<open>model_only=True\<close>. Given to \<^verbatim>\<open>predict_model\<close>, the loaded object and \<open>m\<close>
  produce the same result, on new data and on the hold-out set alike. The loaded
  pipeline's own \<^verbatim>\<open>predict\<close> applies the preprocessing to its input before \<open>m\<close> predicts.
\<close>

theorem save_load_round_trip:
  "load_model model_name (state_of (save_model m model_name model_only st))
     = Returned (if model_only then Model m else Pipeline (prep_pipe st) m)
         (state_of (save_model m model_name model_only st))
   \<and> predict_model L (if model_only then Model m else Pipeline (prep_pipe st) m) data rnd
         (state_of (save_model m model_name model_only st))
     = predict_model L (Model m) data rnd (state_of (save_model m model_name model_only st))
   \<and> run_predict L (if model_only then Model m else Pipeline (prep_pipe st) m) d
     = (if model_only then predict L m d else predict L m (prep_pipe st d))"
proof -
  have s: "state_of (save_model m model_name model_only st)
      = st\<lparr>files := (files st)(model_name @ ''.pkl'' :=
             Some (if model_only then Model m else Pipeline (prep_pipe st) m))\<rparr>"
    by (simp add: save_model_def Let_def)
  have 1: "load_model model_name (state_of (save_model m model_name model_only st))
     = Returned (if model_only then Model m else Pipeline (prep_pipe st) m)
         (state_of (save_model m model_name model_only st))"
    unfolding s by (simp add: load_model_def)
  have 2: "predict_model L (if model_only then Model m else Pipeline (prep_pipe st) m) data rnd
         (state_of (save_model m model_name model_only st))
     = predict_model L (Model m) data rnd (state_of (save_model m model_name model_only st))"
    unfolding s by (cases data; cases model_only) (simp_all add: predict_model_def run_predict_def Let_def)
  have 3: "run_predict L (if model_only then Model m else Pipeline (prep_pipe st) m) d
     = (if model_only then predict L m d else predict L m (prep_pipe st d))"
    by (simp add: run_predict_def)
  from 1 2 3 show ?thesis by blast
qed

text \<open>
  C8 as it was stated fails for the objects themselves: on the input row \<open>1\<close> the loaded
  pipeline of the second experiment, whose preprocessing adds one, predicts \<open>2\<close>, and
  the saved estimator predicts \<open>1\<close>.
\<close>

theorem save_load_round_trip_counterexample:
  "load_model ''final'' (state_of (save_model (''lr'', 1) ''final'' False demo_experiment))
     = Returned (Pipeline (prep_pipe demo_experiment) (''lr'', 1))
         (state_of (save_model (''lr'', 1) ''final'' False demo_experiment))
   \<and> run_predict toy_library (Pipeline (prep_pipe demo_experiment) (''lr'', 1)) [1] = [2]
   \<and> run_predict toy_library (Model (''lr'', 1)) [1] = [1]"
proof -
  have p: "prep_pipe demo_experiment = map (\<lambda>x. x + 1)"
    by (simp add: demo_experiment_def experiment_on_def)
  have "load_model ''final'' (state_of (save_model (''lr'', 1) ''final'' False demo_experiment))
     = Returned (Pipeline (prep_pipe demo_experiment) (''lr'', 1))
         (state_of (save_model (''lr'', 1) ''final'' False demo_experiment))"
    by (simp add: save_model_def load_model_def Let_def)
  moreover have "run_predict toy_library (Pipeline (prep_pipe demo_experiment) (''lr'', 1)) [1] = [2]"
    by (simp add: run_predict_def p toy_simps)
  moreover have "run_predict toy_library (Model (''lr'', 1)) [1] = [1]"
    by (simp add: run_predict_def toy_simps)
  ultimately show ?thesis by blast
qed








end
